theory Spec2Isabelle
  imports Main "HOL-Library.AList"
begin

unbundle bit_operations_syntax

section \<open>The object model of the document engine\<close>

text \<open>
  The program (\<^verbatim>\<open>gin-server.go\<close>) works on the object graph of the pdfcpu library.
  An object is a dictionary, an array, a name, a string, an integer, a boolean, an
  indirect reference or the null object (Go's \<^verbatim>\<open>nil\<close> interface value). The
  conversions \<^verbatim>\<open>pdfcpu.String\<close> and \<^verbatim>\<open>pdfcpu.StringLiteral\<close> of the source both
  make the string object. The library is not part of the repository: its operations
  are modelled by what they do to this object graph.

  A \<^verbatim>\<open>pdfcpu.Dict\<close> is a Go map, hence a reference: two variables holding the same
  dictionary see each other's writes. The model therefore keeps every dictionary in
  a heap and an object of kind \<open>Dict\<close> carries the heap address of its map. Arrays
  are never written in place by the program (only re-assigned), so they are values.
\<close>

datatype Object =
    Dict nat
  | Array "Object list"
  | Name string
  | StringLiteral string
  | Integer int
  | Boolean bool
  | IndirectRef nat nat
  | Null

type_synonym dict = "(string \<times> Object) list"

type_synonym heap = "nat \<Rightarrow> dict"

text \<open>
  Errors are values. The first two are the error returns of the engine, the last two
  are the run-time panics of Go that the program can raise: an assignment to an entry
  of a nil map, and a failed type assertion \<^verbatim>\<open>x.(T)\<close>.
\<close>

datatype error = CatalogUnavailable | DereferenceFailed | NilMapPanic | TypeAssertionPanic

text \<open>
  A parsed document: its cross-reference table, from the identity of an indirect
  reference (object number, generation number) to the stored object, and the
  reference of its catalog.
\<close>

record Context =
  XRefTable :: "((nat \<times> nat) \<times> Object) list"
  Root :: "(nat \<times> nat) option"

subsection \<open>Dictionary access\<close>

text \<open>\<^verbatim>\<open>d.Find(key)\<close>: the entry and whether it is there.\<close>

definition Find :: "dict \<Rightarrow> string \<Rightarrow> Object option" where
  "Find d key = map_of d key"

text \<open>The typed readers answer nil when the key is absent or holds another kind of object.\<close>

definition ArrayEntry :: "dict \<Rightarrow> string \<Rightarrow> Object list" where
  "ArrayEntry d key = (case Find d key of Some (Array a) \<Rightarrow> a | _ \<Rightarrow> [])"

definition StringEntry :: "dict \<Rightarrow> string \<Rightarrow> string option" where
  "StringEntry d key = (case Find d key of Some (StringLiteral s) \<Rightarrow> Some s | _ \<Rightarrow> None)"

definition NameEntry :: "dict \<Rightarrow> string \<Rightarrow> string option" where
  "NameEntry d key = (case Find d key of Some (Name n) \<Rightarrow> Some n | _ \<Rightarrow> None)"

definition IntEntry :: "dict \<Rightarrow> string \<Rightarrow> int option" where
  "IntEntry d key = (case Find d key of Some (Integer i) \<Rightarrow> Some i | _ \<Rightarrow> None)"

text \<open>\<^verbatim>\<open>d[key] = v\<close> on the map at address \<open>a\<close>, and \<^verbatim>\<open>delete(d, key)\<close>.\<close>

definition assign :: "heap \<Rightarrow> nat \<Rightarrow> string \<Rightarrow> Object \<Rightarrow> heap" where
  "assign h a key v = h(a := AList.update key v (h a))"

definition delete_key :: "heap \<Rightarrow> nat \<Rightarrow> string \<Rightarrow> heap" where
  "delete_key h a key = h(a := AList.delete key (h a))"

text \<open>\<^verbatim>\<open>d.Update(key, v)\<close> stores the value unless it is nil.\<close>

definition Update :: "heap \<Rightarrow> nat \<Rightarrow> string \<Rightarrow> Object \<Rightarrow> heap" where
  "Update h a key v = (if v = Null then h else assign h a key v)"

subsection \<open>Dereferencing\<close>

definition FindTableEntryForIndRef :: "Context \<Rightarrow> nat \<times> nat \<Rightarrow> Object option" where
  "FindTableEntryForIndRef ctx ir = map_of (XRefTable ctx) ir"

text \<open>
  \<^verbatim>\<open>ctx.Dereference(o)\<close> resolves one level of indirection against the table of
  \<open>ctx\<close> and leaves every other object as it is. A reference without a table entry
  is the null object (PDF 32000-1, 7.3.10).
\<close>

fun Dereference :: "Context \<Rightarrow> Object \<Rightarrow> Object" where
  "Dereference ctx (IndirectRef n g) =
     (case FindTableEntryForIndRef ctx (n, g) of None \<Rightarrow> Null | Some e \<Rightarrow> e)"
| "Dereference ctx ob = ob"

text \<open>
  The typed dereferences fail on an object of another kind and answer nil on the
  null object: a nil map (\<open>None\<close>), a nil slice (the empty array), a nil pointer.
  \<^verbatim>\<open>DereferenceInteger\<close> and \<^verbatim>\<open>DereferenceBoolean\<close> return a pointer to a fresh
  copy of the value.
\<close>

definition DereferenceDict :: "Context \<Rightarrow> Object \<Rightarrow> error + nat option" where
  "DereferenceDict ctx ob =
     (case Dereference ctx ob of
        Null \<Rightarrow> Inr None
      | Dict a \<Rightarrow> Inr (Some a)
      | _ \<Rightarrow> Inl DereferenceFailed)"

definition DereferenceArray :: "Context \<Rightarrow> Object \<Rightarrow> error + Object list" where
  "DereferenceArray ctx ob =
     (case Dereference ctx ob of
        Null \<Rightarrow> Inr []
      | Array a \<Rightarrow> Inr a
      | _ \<Rightarrow> Inl DereferenceFailed)"

definition DereferenceInteger :: "Context \<Rightarrow> Object \<Rightarrow> error + int option" where
  "DereferenceInteger ctx ob =
     (case Dereference ctx ob of
        Null \<Rightarrow> Inr None
      | Integer i \<Rightarrow> Inr (Some i)
      | _ \<Rightarrow> Inl DereferenceFailed)"

definition DereferenceBoolean :: "Context \<Rightarrow> Object \<Rightarrow> error + bool option" where
  "DereferenceBoolean ctx ob =
     (case Dereference ctx ob of
        Null \<Rightarrow> Inr None
      | Boolean b \<Rightarrow> Inr (Some b)
      | _ \<Rightarrow> Inl DereferenceFailed)"

text \<open>\<^verbatim>\<open>ctx.Catalog()\<close>: the dictionary the root reference resolves to.\<close>

definition Catalog :: "Context \<Rightarrow> error + nat" where
  "Catalog ctx =
     (case Root ctx of
        None \<Rightarrow> Inl CatalogUnavailable
      | Some ir \<Rightarrow>
          (case FindTableEntryForIndRef ctx ir of
             Some (Dict a) \<Rightarrow> Inr a
           | _ \<Rightarrow> Inl CatalogUnavailable))"

section \<open>The form merger\<close>

text \<open>
  Every function below returns the error of the Go function (\<open>None\<close> is \<^verbatim>\<open>nil\<close>)
  together with the heap it leaves behind: a failed merge keeps the writes already done.
\<close>

definition handleNeedAppearances :: "Context \<Rightarrow> nat \<Rightarrow> nat \<Rightarrow> heap \<Rightarrow> error option \<times> heap" where
  "handleNeedAppearances ctxSource dSrc dDest h =
     (case Find (h dSrc) ''NeedAppearances'' of
        None \<Rightarrow> (None, h)
      | Some ob \<Rightarrow>
          if ob = Null then (None, h)
          else (case DereferenceBoolean ctxSource ob of
                  Inl err \<Rightarrow> (Some err, h)
                | Inr b \<Rightarrow>
                    if b = Some True
                    then (None, assign h dDest ''NeedAppearances'' (Boolean True))
                    else (None, h)))"

text \<open>
  In \<^verbatim>\<open>handleSigFields\<close> the pointer \<^verbatim>\<open>iDest\<close> addresses the copy made by
  \<^verbatim>\<open>DereferenceInteger\<close>; the two \<^verbatim>\<open>|=\<close> change that copy, which is dropped when the
  function returns. The source reads \<^verbatim>\<open>SigFields\<close> on the source side and
  \<^verbatim>\<open>SigFlags\<close> on the destination side.
\<close>

definition handleSigFields :: "Context \<Rightarrow> Context \<Rightarrow> nat \<Rightarrow> nat \<Rightarrow> heap \<Rightarrow> error option \<times> heap" where
  "handleSigFields ctxSource ctxDest dSrc dDest h =
     (case Find (h dSrc) ''SigFields'' of
        None \<Rightarrow> (None, h)
      | Some ob \<Rightarrow>
          (case DereferenceInteger ctxSource ob of
             Inl err \<Rightarrow> (Some err, h)
           | Inr None \<Rightarrow> (None, h)
           | Inr (Some iSrc) \<Rightarrow>
               (case Find (h dDest) ''SigFlags'' of
                  None \<Rightarrow> (None, assign h dDest ''SigFields'' (Integer iSrc))
                | Some ob' \<Rightarrow>
                    (case DereferenceInteger ctxDest ob' of
                       Inl err \<Rightarrow> (Some err, h)
                     | Inr None \<Rightarrow> (None, assign h dDest ''SigFields'' (Integer iSrc))
                     | Inr (Some iDest) \<Rightarrow>
                         (let iDest1 = (if iSrc AND 1 > 0 then iDest OR 1 else iDest);
                              iDest2 = (if iSrc AND 2 > 0 then iDest1 OR 2 else iDest1)
                          in (None, h))))))"

definition handleCO :: "Context \<Rightarrow> Context \<Rightarrow> nat \<Rightarrow> nat \<Rightarrow> heap \<Rightarrow> error option \<times> heap" where
  "handleCO ctxSource ctxDest dSrc dDest h =
     (case Find (h dSrc) ''CO'' of
        None \<Rightarrow> (None, h)
      | Some ob \<Rightarrow>
          (case DereferenceArray ctxSource ob of
             Inl err \<Rightarrow> (Some err, h)
           | Inr arrSrc \<Rightarrow>
               (case Find (h dDest) ''CO'' of
                  None \<Rightarrow> (None, assign h dDest ''CO'' (Array arrSrc))
                | Some ob' \<Rightarrow>
                    (case DereferenceArray ctxDest ob' of
                       Inl err \<Rightarrow> (Some err, h)
                     | Inr arrDest \<Rightarrow>
                         if length arrDest = 0
                         then (None, assign h dDest ''CO'' (Array arrSrc))
                         else (None, assign h dDest ''CO'' (Array (arrDest @ arrSrc)))))))"

text \<open>
  In \<^verbatim>\<open>handleDR\<close> the inner \<^verbatim>\<open>dDest, err := ctxDest.DereferenceDict(o)\<close> declares a
  new variable that hides the parameter: inside the \<^verbatim>\<open>else\<close> block \<^verbatim>\<open>dDest\<close> is the
  destination's resource dictionary (\<open>dDestDR\<close> below), and that is the map
  \<^verbatim>\<open>dDest["DR"] = dSrc\<close> writes to. When it is the nil map the write panics.
\<close>

definition handleDR :: "Context \<Rightarrow> Context \<Rightarrow> nat \<Rightarrow> nat \<Rightarrow> heap \<Rightarrow> error option \<times> heap" where
  "handleDR ctxSource ctxDest dSrc dDest h =
     (case Find (h dSrc) ''DR'' of
        None \<Rightarrow> (None, h)
      | Some ob \<Rightarrow>
          (case DereferenceDict ctxSource ob of
             Inl err \<Rightarrow> (Some err, h)
           | Inr None \<Rightarrow> (None, h)
           | Inr (Some dSrcDR) \<Rightarrow>
               if length (h dSrcDR) = 0 then (None, h)
               else (case Find (h dDest) ''DR'' of
                       None \<Rightarrow> (None, assign h dDest ''DR'' (Dict dSrcDR))
                     | Some ob' \<Rightarrow>
                         (case DereferenceDict ctxDest ob' of
                            Inl err \<Rightarrow> (Some err, h)
                          | Inr None \<Rightarrow> (Some NilMapPanic, h)
                          | Inr (Some dDestDR) \<Rightarrow>
                              if length (h dDestDR) = 0
                              then (None, assign h dDestDR ''DR'' (Dict dSrcDR))
                              else (None, h)))))"

text \<open>The loop of \<^verbatim>\<open>handleDA\<close> over the source fields; a nil field dictionary has no \<^verbatim>\<open>FT\<close>.\<close>

fun pushDownDA :: "Context \<Rightarrow> string \<Rightarrow> Object list \<Rightarrow> heap \<Rightarrow> error option \<times> heap" where
  "pushDownDA ctxSource sSrc [] h = (None, h)"
| "pushDownDA ctxSource sSrc (ob # arrFieldsSrc) h =
     (case DereferenceDict ctxSource ob of
        Inl err \<Rightarrow> (Some err, h)
      | Inr None \<Rightarrow> pushDownDA ctxSource sSrc arrFieldsSrc h
      | Inr (Some d) \<Rightarrow>
          if NameEntry (h d) ''FT'' = Some ''Tx'' \<and> Find (h d) ''DA'' = None
          then pushDownDA ctxSource sSrc arrFieldsSrc (assign h d ''DA'' (StringLiteral sSrc))
          else pushDownDA ctxSource sSrc arrFieldsSrc h)"

definition handleDA :: "Context \<Rightarrow> nat \<Rightarrow> nat \<Rightarrow> Object list \<Rightarrow> heap \<Rightarrow> error option \<times> heap" where
  "handleDA ctxSource dSrc dDest arrFieldsSrc h =
     (case StringEntry (h dSrc) ''DA'' of
        None \<Rightarrow> (None, h)
      | Some sSrc \<Rightarrow>
          if length sSrc = 0 then (None, h)
          else (case StringEntry (h dDest) ''DA'' of
                  None \<Rightarrow> (None, assign h dDest ''DA'' (StringLiteral sSrc))
                | Some sDest \<Rightarrow> pushDownDA ctxSource sSrc arrFieldsSrc h))"

fun pushDownQ :: "Context \<Rightarrow> int \<Rightarrow> Object list \<Rightarrow> heap \<Rightarrow> error option \<times> heap" where
  "pushDownQ ctxSource iSrc [] h = (None, h)"
| "pushDownQ ctxSource iSrc (ob # arrFieldsSrc) h =
     (case DereferenceDict ctxSource ob of
        Inl err \<Rightarrow> (Some err, h)
      | Inr None \<Rightarrow> pushDownQ ctxSource iSrc arrFieldsSrc h
      | Inr (Some d) \<Rightarrow>
          if NameEntry (h d) ''FT'' = Some ''Tx'' \<and> Find (h d) ''Q'' = None
          then pushDownQ ctxSource iSrc arrFieldsSrc (assign h d ''Q'' (Integer iSrc))
          else pushDownQ ctxSource iSrc arrFieldsSrc h)"

definition handleQ :: "Context \<Rightarrow> nat \<Rightarrow> nat \<Rightarrow> Object list \<Rightarrow> heap \<Rightarrow> error option \<times> heap" where
  "handleQ ctxSource dSrc dDest arrFieldsSrc h =
     (case IntEntry (h dSrc) ''Q'' of
        None \<Rightarrow> (None, h)
      | Some iSrc \<Rightarrow>
          (case IntEntry (h dDest) ''Q'' of
             None \<Rightarrow> (None, assign h dDest ''Q'' (Integer iSrc))
           | Some iDest \<Rightarrow> pushDownQ ctxSource iSrc arrFieldsSrc h))"

definition handleFormAttributes ::
  "Context \<Rightarrow> Context \<Rightarrow> nat \<Rightarrow> nat \<Rightarrow> Object list \<Rightarrow> heap \<Rightarrow> error option \<times> heap" where
  "handleFormAttributes ctxSource ctxDest dSrc dDest arrFieldsSrc h =
     (case handleNeedAppearances ctxSource dSrc dDest h of
        (Some err, h1) \<Rightarrow> (Some err, h1)
      | (None, h1) \<Rightarrow>
     (case handleSigFields ctxSource ctxDest dSrc dDest h1 of
        (Some err, h2) \<Rightarrow> (Some err, h2)
      | (None, h2) \<Rightarrow>
     (case handleCO ctxSource ctxDest dSrc dDest h2 of
        (Some err, h3) \<Rightarrow> (Some err, h3)
      | (None, h3) \<Rightarrow>
     (case handleDR ctxSource ctxDest dSrc dDest h3 of
        (Some err, h4) \<Rightarrow> (Some err, h4)
      | (None, h4) \<Rightarrow>
     (case handleDA ctxSource dSrc dDest arrFieldsSrc h4 of
        (Some err, h5) \<Rightarrow> (Some err, h5)
      | (None, h5) \<Rightarrow>
     (case handleQ ctxSource dSrc dDest arrFieldsSrc h5 of
        (Some err, h6) \<Rightarrow> (Some err, h6)
      | (None, h6) \<Rightarrow> (None, delete_key h6 dDest ''XFA'')))))))"

text \<open>
  \<^verbatim>\<open>mergeAcroForms\<close>. The source's \<^verbatim>\<open>Fields\<close> entry is dereferenced with
  \<^verbatim>\<open>ctxDest.DereferenceArray\<close>, as the source has it (line 323).
\<close>

definition mergeAcroForms :: "Context \<Rightarrow> Context \<Rightarrow> heap \<Rightarrow> error option \<times> heap" where
  "mergeAcroForms ctxSource ctxDest h =
     (case Catalog ctxDest of
        Inl err \<Rightarrow> (Some err, h)
      | Inr rootDictDest \<Rightarrow>
     (case Catalog ctxSource of
        Inl err \<Rightarrow> (Some err, h)
      | Inr rootDictSource \<Rightarrow>
     (case Find (h rootDictSource) ''AcroForm'' of
        None \<Rightarrow> (None, h)
      | Some ob \<Rightarrow>
     (case DereferenceDict ctxSource ob of
        Inl err \<Rightarrow> (Some err, h)
      | Inr None \<Rightarrow> (None, h)
      | Inr (Some dSrc) \<Rightarrow>
     if length (h dSrc) = 0 then (None, h) else
     (case Find (h dSrc) ''Fields'' of
        None \<Rightarrow> (None, h)
      | Some obFieldsSrc \<Rightarrow>
     (case DereferenceArray ctxDest obFieldsSrc of
        Inl err \<Rightarrow> (Some err, h)
      | Inr arrFieldsSrc \<Rightarrow>
     if length arrFieldsSrc = 0 then (None, h) else
     (case Find (h rootDictDest) ''AcroForm'' of
        None \<Rightarrow> (None, assign h rootDictDest ''AcroForm'' (Dict dSrc))
      | Some ob' \<Rightarrow>
     (case DereferenceDict ctxDest ob' of
        Inl err \<Rightarrow> (Some err, h)
      | Inr None \<Rightarrow> (None, assign h rootDictDest ''AcroForm'' (Dict dSrc))
      | Inr (Some dDest) \<Rightarrow>
     if length (h dDest) = 0
     then (None, assign h rootDictDest ''AcroForm'' (Dict dSrc)) else
     (case Find (h dDest) ''Fields'' of
        None \<Rightarrow> (None, assign h rootDictDest ''AcroForm'' (Dict dSrc))
      | Some obFieldsDest \<Rightarrow>
     (case DereferenceArray ctxDest obFieldsDest of
        Inl err \<Rightarrow> (Some err, h)
      | Inr arrFieldsDest \<Rightarrow>
     if length arrFieldsDest = 0
     then (None, assign h rootDictDest ''AcroForm'' (Dict dSrc))
     else handleFormAttributes ctxSource ctxDest dSrc dDest arrFieldsSrc
            (assign h dDest ''Fields'' (Array (arrFieldsDest @ arrFieldsSrc)))))))))))))"

section \<open>The field scraper\<close>

text \<open>
  What the scraper leaves behind outside the document: the names collected in
  \<^verbatim>\<open>acro_fields\<close>, the lines it logs and the responses of \<^verbatim>\<open>errorHandler\<close>, and the
  calls of \<^verbatim>\<open>pdfcpu.Write\<close>, each with the index of the document written and the
  directory and file name set in \<^verbatim>\<open>ctx.Write\<close>.
\<close>

datatype logmsg =
    LogError nat
  | NoForms nat
  | NoXrefTableEntry "nat \<times> nat" nat
  | NotADict "nat \<times> nat" nat
  | NoFieldName nat nat
  | BadRequest nat

record world =
  acro_fields :: "string list"
  logged :: "logmsg list"
  written :: "(nat \<times> string \<times> string) list"

definition log_line :: "logmsg \<Rightarrow> world \<Rightarrow> world" where
  "log_line m w = w\<lparr>logged := logged w @ [m]\<rparr>"

text \<open>
  The loop of \<^verbatim>\<open>getAcro\<close> over the \<^verbatim>\<open>Fields\<close> array, \<open>i\<close> the loop index. It ends
  with \<open>None\<close> when the array is exhausted, with \<open>Some (Inr 0)\<close> at a \<^verbatim>\<open>return 0\<close>
  and with a panic when an element is not an indirect reference
  (\<^verbatim>\<open>o.(pdfcpu.IndirectRef)\<close>).
\<close>

fun fieldLoop ::
  "nat \<Rightarrow> Context \<Rightarrow> nat \<Rightarrow> Object list \<Rightarrow> heap \<Rightarrow> world \<Rightarrow> (error + int) option \<times> heap \<times> world" where
  "fieldLoop idx ctx i [] h w = (None, h, w)"
| "fieldLoop idx ctx i (ob # rest) h w =
     (case ob of
        IndirectRef n g \<Rightarrow>
          (case FindTableEntryForIndRef ctx (n, g) of
             None \<Rightarrow> (Some (Inr 0), h, log_line (NoXrefTableEntry (n, g) idx) w)
           | Some e \<Rightarrow>
               (case e of
                  Dict d \<Rightarrow>
                    (case StringEntry (h d) ''T'' of
                       None \<Rightarrow> (Some (Inr 0), h, log_line (NoFieldName i idx) w)
                     | Some field_name \<Rightarrow>
                         fieldLoop idx ctx (Suc i) rest
                           (Update h d ''V'' (StringLiteral ''STUFF!''))
                           (w\<lparr>acro_fields := acro_fields w @ [field_name]\<rparr>))
                | _ \<Rightarrow> (Some (Inr 0), h, log_line (NotADict (n, g) idx) w)))
      | _ \<Rightarrow> (Some (Inl TypeAssertionPanic), h, w))"

text \<open>
  \<^verbatim>\<open>getAcro\<close> from \<^verbatim>\<open>ctx.Catalog()\<close> on, for a document that \<^verbatim>\<open>api.ReadContext\<close>
  has parsed. It returns the result of \<^verbatim>\<open>getAcro\<close>, the heap of the document and the
  world. A nil \<^verbatim>\<open>adict\<close> reads as the empty dictionary.
\<close>

definition getAcro_ctx :: "nat \<Rightarrow> Context \<Rightarrow> heap \<Rightarrow> world \<Rightarrow> (error + int) \<times> heap \<times> world" where
  "getAcro_ctx idx ctx h w =
     (case Catalog ctx of
        Inl err \<Rightarrow> (Inr 0, h, log_line (LogError idx) w)
      | Inr cat \<Rightarrow>
     (case Find (h cat) ''AcroForm'' of
        None \<Rightarrow> (Inr 0, h, log_line (NoForms idx) w)
      | Some acroform \<Rightarrow>
     (case DereferenceDict ctx acroform of
        Inl err \<Rightarrow> (Inr 0, h, log_line (LogError idx) w)
      | Inr adict \<Rightarrow>
     (case fieldLoop idx ctx 0
             (ArrayEntry (case adict of None \<Rightarrow> [] | Some a \<Rightarrow> h a) ''Fields'') h w of
        (Some r, h', w') \<Rightarrow> (r, h', w')
      | (None, h', w') \<Rightarrow>
          (Inr 1, h', w'\<lparr>written := written w' @ [(idx, ''.'', ''tezzting.pdf'')]\<rparr>)))))"

text \<open>
  What \<^verbatim>\<open>api.ReadContext\<close> makes of a source: an error, or a document with the heap
  of its dictionaries. The document is local to \<^verbatim>\<open>getAcro\<close>; only the world survives.
\<close>

datatype source = ReadError | Parsed Context heap

definition getAcro :: "nat \<Rightarrow> source \<Rightarrow> world \<Rightarrow> (error + int) \<times> world" where
  "getAcro idx src w =
     (case src of
        ReadError \<Rightarrow> (Inr 0, log_line (LogError idx) w)
      | Parsed ctx h \<Rightarrow> (case getAcro_ctx idx ctx h w of (r, h', w') \<Rightarrow> (r, w')))"

text \<open>
  \<^verbatim>\<open>scrape\<close>. The request body is a JSON object; \<^verbatim>\<open>file_dict["files"]\<close> must be an
  array of strings or the type assertions panic. What the file system and the
  validator make of a path at a given iteration is a parameter \<open>fs\<close>:
  \<^verbatim>\<open>os.Open\<close> fails, \<^verbatim>\<open>api.Validate\<close> fails, or the file goes to \<^verbatim>\<open>getAcro\<close>.
  \<^verbatim>\<open>errorHandler\<close> answers the request with a bad-request response.
\<close>

datatype json = JString string | JArray "json list" | JOther

datatype input_file = OpenError | ValidateError | Validated source

fun files_list_of :: "json list \<Rightarrow> string list option" where
  "files_list_of [] = Some []"
| "files_list_of (JString s # vs) = map_option ((#) s) (files_list_of vs)"
| "files_list_of (_ # vs) = None"

definition errorHandler :: "nat \<Rightarrow> world \<Rightarrow> world" where
  "errorHandler idx w = log_line (BadRequest idx) w"

fun scrape_loop ::
  "(nat \<Rightarrow> string \<Rightarrow> input_file) \<Rightarrow> nat \<Rightarrow> string list \<Rightarrow> world \<Rightarrow> error option \<times> world" where
  "scrape_loop fs idx [] w = (None, w)"
| "scrape_loop fs idx (f # files_list) w =
     (case fs idx f of
        OpenError \<Rightarrow> scrape_loop fs (Suc idx) files_list (errorHandler idx w)
      | ValidateError \<Rightarrow> scrape_loop fs (Suc idx) files_list (errorHandler idx w)
      | Validated src \<Rightarrow>
          (case getAcro idx src w of
             (Inl err, w') \<Rightarrow> (Some err, w')
           | (Inr res, w') \<Rightarrow> scrape_loop fs (Suc idx) files_list w'))"

definition scrape ::
  "(nat \<Rightarrow> string \<Rightarrow> input_file) \<Rightarrow> (string \<times> json) list \<Rightarrow> error option \<times> world" where
  "scrape fs file_dict =
     (case map_of file_dict ''files'' of
        Some (JArray files_interface) \<Rightarrow>
          (case files_list_of files_interface of
             None \<Rightarrow> (Some TypeAssertionPanic, \<lparr>acro_fields = [], logged = [], written = []\<rparr>)
           | Some files_list \<Rightarrow>
               scrape_loop fs 0 files_list \<lparr>acro_fields = [], logged = [], written = []\<rparr>)
      | _ \<Rightarrow> (Some TypeAssertionPanic, \<lparr>acro_fields = [], logged = [], written = []\<rparr>))"

section \<open>Notions used to state the properties\<close>

text \<open>
  The AcroForm dictionary of a document, and its \<^verbatim>\<open>Fields\<close> array, each resolved
  through the document's own table.
\<close>

definition acroForm_of :: "Context \<Rightarrow> heap \<Rightarrow> nat option" where
  "acroForm_of ctx h =
     (case Catalog ctx of
        Inl err \<Rightarrow> None
      | Inr cat \<Rightarrow>
          (case Find (h cat) ''AcroForm'' of
             None \<Rightarrow> None
           | Some ob \<Rightarrow>
               (case DereferenceDict ctx ob of Inr (Some a) \<Rightarrow> Some a | _ \<Rightarrow> None)))"

definition fields_of :: "Context \<Rightarrow> heap \<Rightarrow> Object list" where
  "fields_of ctx h =
     (case acroForm_of ctx h of
        None \<Rightarrow> []
      | Some a \<Rightarrow>
          (case Find (h a) ''Fields'' of
             None \<Rightarrow> []
           | Some ob \<Rightarrow> (case DereferenceArray ctx ob of Inr arr \<Rightarrow> arr | Inl err \<Rightarrow> [])))"

text \<open>The keys the attribute handlers write or delete.\<close>

definition merge_keys :: "string set" where
  "merge_keys = {''NeedAppearances'', ''SigFields'', ''CO'', ''DR'', ''DA'', ''Q'', ''XFA''}"

text \<open>
  The name the scraper finds for an element of \<^verbatim>\<open>Fields\<close>, if it finds one, and the
  three anomalies of a field that is an indirect reference: no table entry, an entry
  that is not a dictionary, a dictionary without a string under \<^verbatim>\<open>T\<close>.
\<close>

definition field_name :: "Context \<Rightarrow> heap \<Rightarrow> Object \<Rightarrow> string option" where
  "field_name ctx h ob =
     (case ob of
        IndirectRef n g \<Rightarrow>
          (case FindTableEntryForIndRef ctx (n, g) of
             Some (Dict d) \<Rightarrow> StringEntry (h d) ''T''
           | _ \<Rightarrow> None)
      | _ \<Rightarrow> None)"

definition anomalous :: "Context \<Rightarrow> heap \<Rightarrow> Object \<Rightarrow> bool" where
  "anomalous ctx h ob =
     (case ob of
        IndirectRef n g \<Rightarrow>
          (case FindTableEntryForIndRef ctx (n, g) of
             None \<Rightarrow> True
           | Some (Dict d) \<Rightarrow> StringEntry (h d) ''T'' = None
           | Some _ \<Rightarrow> True)
      | _ \<Rightarrow> False)"

text \<open>The array \<^verbatim>\<open>getAcro\<close> iterates over (read with \<^verbatim>\<open>ArrayEntry\<close>, not dereferenced).\<close>

definition scraper_fields :: "Context \<Rightarrow> heap \<Rightarrow> Object list" where
  "scraper_fields ctx h =
     (case Catalog ctx of
        Inl err \<Rightarrow> []
      | Inr cat \<Rightarrow>
          (case Find (h cat) ''AcroForm'' of
             None \<Rightarrow> []
           | Some acroform \<Rightarrow>
               (case DereferenceDict ctx acroform of
                  Inl err \<Rightarrow> []
                | Inr adict \<Rightarrow>
                    ArrayEntry (case adict of None \<Rightarrow> [] | Some a \<Rightarrow> h a) ''Fields'')))"

text \<open>
  Whether the form of a document holds its \<^verbatim>\<open>Fields\<close> in place, that is, the entry is
  not an indirect reference (it may be absent). Such an entry dereferences to the
  same object in every table.
\<close>

definition fields_held_directly :: "Context \<Rightarrow> heap \<Rightarrow> bool" where
  "fields_held_directly ctx h =
     (case acroForm_of ctx h of
        None \<Rightarrow> True
      | Some a \<Rightarrow>
          (case Find (h a) ''Fields'' of
             Some (IndirectRef n g) \<Rightarrow> False
           | _ \<Rightarrow> True))"

text \<open>
  The array \<^verbatim>\<open>getAcro\<close> iterates over when it gets as far as the loop, and \<open>None\<close>
  when it returns before (no catalog, no form, a form that is not a dictionary).
\<close>

definition scraper_array :: "Context \<Rightarrow> heap \<Rightarrow> Object list option" where
  "scraper_array ctx h =
     (case Catalog ctx of
        Inl err \<Rightarrow> None
      | Inr cat \<Rightarrow>
          (case Find (h cat) ''AcroForm'' of
             None \<Rightarrow> None
           | Some acroform \<Rightarrow>
               (case DereferenceDict ctx acroform of
                  Inl err \<Rightarrow> None
                | Inr adict \<Rightarrow>
                    Some (ArrayEntry (case adict of None \<Rightarrow> [] | Some a \<Rightarrow> h a) ''Fields''))))"

section \<open>Concrete documents\<close>

text \<open>A heap given by the dictionaries at finitely many addresses.\<close>

definition heap_of :: "(nat \<times> dict) list \<Rightarrow> heap" where
  "heap_of al a = (case map_of al a of Some d \<Rightarrow> d | None \<Rightarrow> [])"

text \<open>
  Two documents for the merger. The source has its catalog at address 10, its form
  at 11, one field \<^verbatim>\<open>2 0 R\<close> (at 12, a text field named f2) and a resource
  dictionary at 13; its object \<^verbatim>\<open>5 0 R\<close> is the array of its field. The destination
  has its catalog at 20, its form at 21, the fields \<^verbatim>\<open>3 0 R\<close> (at 22, named f1) and
  \<^verbatim>\<open>4 0 R\<close> (at 24), an empty dictionary at 23; its object \<^verbatim>\<open>5 0 R\<close> is the array
  of its two fields.
\<close>

definition src_doc :: Context where
  "src_doc = \<lparr>XRefTable = [((1, 0), Dict 10), ((2, 0), Dict 12),
                            ((5, 0), Array [IndirectRef 2 0])],
              Root = Some (1, 0)\<rparr>"

definition dst_doc :: Context where
  "dst_doc = \<lparr>XRefTable = [((1, 0), Dict 20), ((3, 0), Dict 22), ((4, 0), Dict 24),
                            ((5, 0), Array [IndirectRef 3 0, IndirectRef 4 0])],
              Root = Some (1, 0)\<rparr>"

definition forms_heap :: "dict \<Rightarrow> dict \<Rightarrow> dict \<Rightarrow> heap" where
  "forms_heap src_catalog src_form dst_form = heap_of
     [(10, src_catalog),
      (11, src_form),
      (12, [(''T'', StringLiteral ''f2''), (''FT'', Name ''Tx'')]),
      (13, [(''Font'', Name ''Cour'')]),
      (20, [(''AcroForm'', Dict 21)]),
      (21, dst_form),
      (22, [(''T'', StringLiteral ''f1''), (''FT'', Name ''Tx'')]),
      (23, []),
      (24, [(''T'', StringLiteral ''f3'')])]"

text \<open>
  A document for the scraper: catalog at 10, form at 11 with the given \<^verbatim>\<open>Fields\<close>,
  fields \<^verbatim>\<open>2 0 R\<close> (named a) and \<^verbatim>\<open>3 0 R\<close> (named b), an integer as object
  \<^verbatim>\<open>4 0 R\<close>, and no object 9.
\<close>

definition scrape_doc :: Context where
  "scrape_doc = \<lparr>XRefTable = [((1, 0), Dict 10), ((2, 0), Dict 12), ((3, 0), Dict 13),
                               ((4, 0), Integer 7)],
                 Root = Some (1, 0)\<rparr>"

definition scrape_heap :: "Object list \<Rightarrow> heap" where
  "scrape_heap flds = heap_of
     [(10, [(''AcroForm'', Dict 11)]),
      (11, [(''Fields'', Array flds)]),
      (12, [(''T'', StringLiteral ''a'')]),
      (13, [(''T'', StringLiteral ''b'')])]"


definition world0 :: world where
  "world0 = \<lparr>acro_fields = [], logged = [], written = []\<rparr>"

text \<open>A request of three files: a good document, one with a dangling field, a missing file.\<close>

definition demo_fs :: "nat \<Rightarrow> string \<Rightarrow> input_file" where
  "demo_fs idx path =
     (if path = ''a.pdf'' then Validated (Parsed scrape_doc (scrape_heap [IndirectRef 3 0]))
      else if path = ''b.pdf''
      then Validated (Parsed scrape_doc
             (scrape_heap [IndirectRef 2 0, IndirectRef 9 0, IndirectRef 3 0]))
      else OpenError)"

definition demo_request :: "(string \<times> json) list" where
  "demo_request = [(''files'', JArray [JString ''a.pdf'', JString ''b.pdf'', JString ''c.pdf''])]"

section \<open>Dictionary and heap lemmas\<close>

lemma Find_assign:
  "Find (assign h b k v a) k' = (if a = b \<and> k' = k then Some v else Find (h a) k')"
  by (simp add: Find_def assign_def update_conv')

lemma Find_delete_key:
  "Find (delete_key h b k a) k' = (if a = b \<and> k' = k then None else Find (h a) k')"
  by (simp add: Find_def delete_key_def delete_conv')

lemma Find_Update_V:
  "Find (Update h d ''V'' (StringLiteral s) a) ''V'' =
     (if a = d then Some (StringLiteral s) else Find (h a) ''V'')"
  by (simp add: Update_def Find_assign)

lemma StringEntry_Update_V:
  "StringEntry (Update h d ''V'' v a) ''T'' = StringEntry (h a) ''T''"
  by (simp add: StringEntry_def Update_def Find_assign)

lemmas merge_eval =
  mergeAcroForms_def handleFormAttributes_def handleNeedAppearances_def handleSigFields_def
  handleCO_def handleDR_def handleDA_def handleQ_def
  Catalog_def FindTableEntryForIndRef_def Find_def
  DereferenceDict_def DereferenceArray_def DereferenceInteger_def DereferenceBoolean_def
  StringEntry_def IntEntry_def NameEntry_def assign_def delete_key_def
  src_doc_def dst_doc_def forms_heap_def heap_of_def

lemmas scrape_eval =
  getAcro_ctx_def Catalog_def FindTableEntryForIndRef_def Find_def DereferenceDict_def
  ArrayEntry_def StringEntry_def Update_def assign_def log_line_def
  scrape_doc_def scrape_heap_def heap_of_def world0_def

section \<open>The form merger: what the handlers leave alone\<close>

lemma frame_NeedAppearances:
  "handleNeedAppearances cs dS dD h = (e, h') \<Longrightarrow> k \<notin> merge_keys \<Longrightarrow>
   Find (h' a) k = Find (h a) k"
  by (auto simp: handleNeedAppearances_def Find_assign merge_keys_def
           split: option.splits if_splits sum.splits)

lemma frame_SigFields:
  "handleSigFields cs cd dS dD h = (e, h') \<Longrightarrow> k \<notin> merge_keys \<Longrightarrow>
   Find (h' a) k = Find (h a) k"
  by (auto simp: handleSigFields_def Find_assign merge_keys_def Let_def
           split: option.splits if_splits sum.splits)

lemma frame_CO:
  "handleCO cs cd dS dD h = (e, h') \<Longrightarrow> k \<notin> merge_keys \<Longrightarrow>
   Find (h' a) k = Find (h a) k"
  by (auto simp: handleCO_def Find_assign merge_keys_def
           split: option.splits if_splits sum.splits)

lemma frame_DR:
  "handleDR cs cd dS dD h = (e, h') \<Longrightarrow> k \<notin> merge_keys \<Longrightarrow>
   Find (h' a) k = Find (h a) k"
  by (auto simp: handleDR_def Find_assign merge_keys_def
           split: option.splits if_splits sum.splits)

lemma frame_pushDownDA:
  "pushDownDA cs s flds h = (e, h') \<Longrightarrow> k \<notin> merge_keys \<Longrightarrow>
   Find (h' a) k = Find (h a) k"
proof (induction flds arbitrary: h)
  case Nil
  then show ?case by simp
next
  case (Cons ob flds)
  then show ?case
    by (auto simp: Find_assign merge_keys_def split: option.splits if_splits sum.splits)
qed

lemma frame_pushDownQ:
  "pushDownQ cs q flds h = (e, h') \<Longrightarrow> k \<notin> merge_keys \<Longrightarrow>
   Find (h' a) k = Find (h a) k"
proof (induction flds arbitrary: h)
  case Nil
  then show ?case by simp
next
  case (Cons ob flds)
  then show ?case
    by (auto simp: Find_assign merge_keys_def split: option.splits if_splits sum.splits)
qed

lemma frame_DA:
  "handleDA cs dS dD flds h = (e, h') \<Longrightarrow> k \<notin> merge_keys \<Longrightarrow>
   Find (h' a) k = Find (h a) k"
  by (auto simp: handleDA_def Find_assign merge_keys_def
           split: option.splits if_splits sum.splits dest: frame_pushDownDA)

lemma frame_Q:
  "handleQ cs dS dD flds h = (e, h') \<Longrightarrow> k \<notin> merge_keys \<Longrightarrow>
   Find (h' a) k = Find (h a) k"
  by (auto simp: handleQ_def Find_assign merge_keys_def
           split: option.splits if_splits sum.splits dest: frame_pushDownQ)

lemma frame_handleFormAttributes:
  assumes "handleFormAttributes cs cd dS dD flds h = (e, h')" "k \<notin> merge_keys"
  shows "Find (h' a) k = Find (h a) k"
proof -
  obtain e1 h1 where 1: "handleNeedAppearances cs dS dD h = (e1, h1)" by fastforce
  obtain e2 h2 where 2: "handleSigFields cs cd dS dD h1 = (e2, h2)" by fastforce
  obtain e3 h3 where 3: "handleCO cs cd dS dD h2 = (e3, h3)" by fastforce
  obtain e4 h4 where 4: "handleDR cs cd dS dD h3 = (e4, h4)" by fastforce
  obtain e5 h5 where 5: "handleDA cs dS dD flds h4 = (e5, h5)" by fastforce
  obtain e6 h6 where 6: "handleQ cs dS dD flds h5 = (e6, h6)" by fastforce
  note fr = frame_NeedAppearances[OF 1 assms(2), of a] frame_SigFields[OF 2 assms(2), of a]
    frame_CO[OF 3 assms(2), of a] frame_DR[OF 4 assms(2), of a] frame_DA[OF 5 assms(2), of a]
    frame_Q[OF 6 assms(2), of a]
  have "k \<noteq> ''XFA''" using assms(2) by (auto simp: merge_keys_def)
  then show ?thesis
    using assms(1) fr
    by (auto simp: handleFormAttributes_def 1 2 3 4 5 6 Find_delete_key split: option.splits)
qed

lemma handleFormAttributes_XFA:
  "handleFormAttributes cs cd dS dD flds h = (None, h') \<Longrightarrow> Find (h' dD) ''XFA'' = None"
  by (auto simp: handleFormAttributes_def Find_delete_key split: option.splits prod.splits)

lemma acroForm_of_cong:
  "(\<And>a. Find (h' a) ''AcroForm'' = Find (h a) ''AcroForm'') \<Longrightarrow>
   acroForm_of ctx h' = acroForm_of ctx h"
  by (simp add: acroForm_of_def split: sum.splits)

lemma DereferenceArray_direct:
  "(\<And>n g. ob \<noteq> IndirectRef n g) \<Longrightarrow> DereferenceArray ctx ob = DereferenceArray ctx' ob"
  by (cases ob) (auto simp: DereferenceArray_def)

lemma acroForm_of_replaced:
  assumes "Catalog ctx = Inr rd"
  shows "acroForm_of ctx (assign h rd ''AcroForm'' (Dict a)) = Some a"
  using assms by (simp add: acroForm_of_def Find_assign DereferenceDict_def)










section \<open>The form merger: properties\<close>

text \<open>
  C1. Claimed: with an Integer flags value on both sides the destination's flags
  become \<open>dest OR (src AND 1) OR (src AND 2)\<close>, so destination 2 and source 1 give 3.
  The code computes the disjunction in the copy \<^verbatim>\<open>*iDest\<close> and never stores it. With
  source \<^verbatim>\<open>SigFields\<close> 1 and destination \<^verbatim>\<open>SigFlags\<close> 2 (the keys the code reads) the
  merge succeeds and the destination keeps 2; with \<^verbatim>\<open>SigFields\<close> on both sides the
  destination's value is overwritten by 1; with \<^verbatim>\<open>SigFlags\<close> on both sides nothing
  happens. In no reading does the destination end with 3.
\<close>

theorem C1_sigflags_or_is_dropped:
  "fst (mergeAcroForms src_doc dst_doc
          (forms_heap [(''AcroForm'', Dict 11)]
             [(''Fields'', Array [IndirectRef 2 0]), (''SigFields'', Integer 1)]
             [(''Fields'', Array [IndirectRef 3 0]), (''SigFlags'', Integer 2)])) = None
   \<and> snd (mergeAcroForms src_doc dst_doc
          (forms_heap [(''AcroForm'', Dict 11)]
             [(''Fields'', Array [IndirectRef 2 0]), (''SigFields'', Integer 1)]
             [(''Fields'', Array [IndirectRef 3 0]), (''SigFlags'', Integer 2)])) 21 =
       [(''Fields'', Array [IndirectRef 3 0, IndirectRef 2 0]), (''SigFlags'', Integer 2)]
   \<and> snd (mergeAcroForms src_doc dst_doc
          (forms_heap [(''AcroForm'', Dict 11)]
             [(''Fields'', Array [IndirectRef 2 0]), (''SigFields'', Integer 1)]
             [(''Fields'', Array [IndirectRef 3 0]), (''SigFields'', Integer 2)])) 21 =
       [(''Fields'', Array [IndirectRef 3 0, IndirectRef 2 0]), (''SigFields'', Integer 1)]
   \<and> snd (mergeAcroForms src_doc dst_doc
          (forms_heap [(''AcroForm'', Dict 11)]
             [(''Fields'', Array [IndirectRef 2 0]), (''SigFlags'', Integer 1)]
             [(''Fields'', Array [IndirectRef 3 0]), (''SigFlags'', Integer 2)])) 21 =
       [(''Fields'', Array [IndirectRef 3 0, IndirectRef 2 0]), (''SigFlags'', Integer 2)]"
  by (simp add: merge_eval)

text \<open>
  C3, as amended. Claimed: a destination form that has an \<^verbatim>\<open>XFA\<close> entry has none
  after any successful merge, also when the merge is a no-op or a wholesale
  replacement. What holds, for a destination that has a form, a source whose
  \<^verbatim>\<open>Fields\<close> entry is held in place, and a merge that succeeds:
  \<^item> when the source has no fields (no form, an empty form, no \<^verbatim>\<open>Fields\<close>, an empty
    array) the merge is a no-op: the heap is the one before, \<^verbatim>\<open>XFA\<close> included;
  \<^item> when the source has fields and the destination has none, the destination's form
    becomes the source's dictionary, and every \<^verbatim>\<open>XFA\<close> entry is as before, so that
    the destination's form has one exactly when the source's had;
  \<^item> when both have fields, the destination's form is the same dictionary and has
    no \<^verbatim>\<open>XFA\<close> entry.
\<close>

theorem C3_xfa_after_successful_merge:
  assumes ok: "mergeAcroForms ctxSource ctxDest h = (None, h')"
      and dst: "acroForm_of ctxDest h = Some dDest"
      and direct: "fields_held_directly ctxSource h"
  shows "if fields_of ctxSource h = [] then h' = h
         else if fields_of ctxDest h = []
         then acroForm_of ctxDest h' = acroForm_of ctxSource h \<and>
              (\<forall>a. Find (h' a) ''XFA'' = Find (h a) ''XFA'')
         else acroForm_of ctxDest h' = Some dDest \<and> Find (h' dDest) ''XFA'' = None"
proof -
  from dst obtain rd ob where rd: "Catalog ctxDest = Inr rd"
     "Find (h rd) ''AcroForm'' = Some ob" "DereferenceDict ctxDest ob = Inr (Some dDest)"
    by (auto simp: acroForm_of_def split: sum.splits option.splits)
  from ok rd(1) obtain rs where rs: "Catalog ctxSource = Inr rs"
    by (auto simp: mergeAcroForms_def split: sum.splits)
  show ?thesis
  proof (cases "fields_of ctxSource h = []")
    case True
    have "h' = h"
    proof (cases "acroForm_of ctxSource h")
      case None
      with ok rd rs show ?thesis
        by (auto simp: mergeAcroForms_def acroForm_of_def split: sum.splits option.splits if_splits)
    next
      case (Some dSrc)
      then obtain os where os: "Find (h rs) ''AcroForm'' = Some os"
          "DereferenceDict ctxSource os = Inr (Some dSrc)"
        using rs by (auto simp: acroForm_of_def split: sum.splits option.splits)
      show ?thesis
      proof (cases "Find (h dSrc) ''Fields''")
        case None
        with ok rd rs os show ?thesis
          by (auto simp: mergeAcroForms_def split: if_splits)
      next
        case (Some obF)
        with direct \<open>acroForm_of ctxSource h = Some dSrc\<close>
        have nr: "\<And>n g. obF \<noteq> IndirectRef n g"
          by (auto simp: fields_held_directly_def)
        have eq: "DereferenceArray ctxDest obF = DereferenceArray ctxSource obF"
          using nr by (rule DereferenceArray_direct)
        from True Some \<open>acroForm_of ctxSource h = Some dSrc\<close>
        have "DereferenceArray ctxSource obF = Inr [] \<or> (\<exists>e. DereferenceArray ctxSource obF = Inl e)"
          by (auto simp: fields_of_def split: sum.splits)
        with ok rd rs os Some eq show ?thesis
          by (auto simp: mergeAcroForms_def split: if_splits)
      qed
    qed
    with True show ?thesis by simp
  next
    case False
    then obtain dSrc obF arrS where src: "acroForm_of ctxSource h = Some dSrc"
        "Find (h dSrc) ''Fields'' = Some obF" "DereferenceArray ctxSource obF = Inr arrS" "arrS \<noteq> []"
      by (auto simp: fields_of_def split: sum.splits option.splits)
    then obtain os where os: "Find (h rs) ''AcroForm'' = Some os"
        "DereferenceDict ctxSource os = Inr (Some dSrc)"
      using rs by (auto simp: acroForm_of_def split: sum.splits option.splits)
    from direct src(1,2) have nr: "\<And>n g. obF \<noteq> IndirectRef n g"
      by (auto simp: fields_held_directly_def)
    have eq: "DereferenceArray ctxDest obF = Inr arrS"
      using DereferenceArray_direct[OF nr, of ctxDest ctxSource] src(3) by simp
    have sne: "h dSrc \<noteq> []" using src(2) by (auto simp: Find_def)
    show ?thesis
    proof (cases "fields_of ctxDest h = []")
      case True
      have "h' = assign h rd ''AcroForm'' (Dict dSrc)"
      proof (cases "Find (h dDest) ''Fields''")
        case None
        with ok rd rs os src eq sne show ?thesis
          by (auto simp: mergeAcroForms_def split: if_splits)
      next
        case (Some obD)
        with True dst
        have "DereferenceArray ctxDest obD = Inr [] \<or> (\<exists>e. DereferenceArray ctxDest obD = Inl e)"
          by (auto simp: fields_of_def split: sum.splits)
        with ok rd rs os src eq sne Some show ?thesis
          by (auto simp: mergeAcroForms_def split: if_splits)
      qed
      then have "acroForm_of ctxDest h' = Some dSrc" "\<forall>a. Find (h' a) ''XFA'' = Find (h a) ''XFA''"
        using rd(1) by (simp_all add: acroForm_of_replaced Find_assign)
      with True False src(1) show ?thesis by simp
    next
      case dF: False
      with dst obtain obD arrD where f: "Find (h dDest) ''Fields'' = Some obD"
         "DereferenceArray ctxDest obD = Inr arrD" "arrD \<noteq> []"
        by (auto simp: fields_of_def split: sum.splits option.splits)
      have dne: "h dDest \<noteq> []" using f(1) by (auto simp: Find_def)
      have m: "handleFormAttributes ctxSource ctxDest dSrc dDest arrS
         (assign h dDest ''Fields'' (Array (arrD @ arrS))) = (None, h')"
        using ok rd rs os src eq sne f dne
        by (simp add: mergeAcroForms_def)
      have "Find (h' a) ''AcroForm'' = Find (h a) ''AcroForm''" for a
        using frame_handleFormAttributes[OF m, of "''AcroForm''" a]
        by (simp add: merge_keys_def Find_assign)
      then have "acroForm_of ctxDest h' = acroForm_of ctxDest h" by (rule acroForm_of_cong)
      with handleFormAttributes_XFA[OF m] dst False dF show ?thesis by simp
    qed
  qed
qed

text \<open>
  The theorem at three merges into a destination whose form has the entry
  \<^verbatim>\<open>XFA\<close>. Both forms have a field: the entry is gone. The destination's form has
  no field and the source's form carries an \<^verbatim>\<open>XFA\<close> entry of its own: the
  destination's form is now the source's dictionary, with the source's entry. The
  source has no form: the entry stays.
\<close>

theorem C3_xfa_after_successful_merge_witness:
  "fst (mergeAcroForms src_doc dst_doc
       (forms_heap [(''AcroForm'', Dict 11)] [(''Fields'', Array [IndirectRef 2 0])]
          [(''Fields'', Array [IndirectRef 3 0]), (''XFA'', StringLiteral ''x'')])) = None
   \<and> acroForm_of dst_doc (snd (mergeAcroForms src_doc dst_doc
       (forms_heap [(''AcroForm'', Dict 11)] [(''Fields'', Array [IndirectRef 2 0])]
          [(''Fields'', Array [IndirectRef 3 0]), (''XFA'', StringLiteral ''x'')]))) = Some 21
   \<and> Find (snd (mergeAcroForms src_doc dst_doc
       (forms_heap [(''AcroForm'', Dict 11)] [(''Fields'', Array [IndirectRef 2 0])]
          [(''Fields'', Array [IndirectRef 3 0]), (''XFA'', StringLiteral ''x'')])) 21) ''XFA''
       = None
   \<and> fst (mergeAcroForms src_doc dst_doc
       (forms_heap [(''AcroForm'', Dict 11)]
          [(''Fields'', Array [IndirectRef 2 0]), (''XFA'', StringLiteral ''y'')]
          [(''XFA'', StringLiteral ''x'')])) = None
   \<and> acroForm_of dst_doc (snd (mergeAcroForms src_doc dst_doc
       (forms_heap [(''AcroForm'', Dict 11)]
          [(''Fields'', Array [IndirectRef 2 0]), (''XFA'', StringLiteral ''y'')]
          [(''XFA'', StringLiteral ''x'')]))) = Some 11
   \<and> Find (snd (mergeAcroForms src_doc dst_doc
       (forms_heap [(''AcroForm'', Dict 11)]
          [(''Fields'', Array [IndirectRef 2 0]), (''XFA'', StringLiteral ''y'')]
          [(''XFA'', StringLiteral ''x'')])) 11) ''XFA'' = Some (StringLiteral ''y'')
   \<and> mergeAcroForms src_doc dst_doc
       (forms_heap [] [] [(''Fields'', Array [IndirectRef 3 0]), (''XFA'', StringLiteral ''x'')])
     = (None,
        forms_heap [] [] [(''Fields'', Array [IndirectRef 3 0]), (''XFA'', StringLiteral ''x'')])"
proof -
  let ?hc = "forms_heap [(''AcroForm'', Dict 11)] [(''Fields'', Array [IndirectRef 2 0])]
          [(''Fields'', Array [IndirectRef 3 0]), (''XFA'', StringLiteral ''x'')]"
  let ?hb = "forms_heap [(''AcroForm'', Dict 11)]
          [(''Fields'', Array [IndirectRef 2 0]), (''XFA'', StringLiteral ''y'')]
          [(''XFA'', StringLiteral ''x'')]"
  let ?ha = "forms_heap [] [] [(''Fields'', Array [IndirectRef 3 0]), (''XFA'', StringLiteral ''x'')]"
  have dst: "acroForm_of dst_doc ?hc = Some 21" "acroForm_of dst_doc ?hb = Some 21"
      "acroForm_of dst_doc ?ha = Some 21"
    by (simp_all add: acroForm_of_def merge_eval)
  have src: "acroForm_of src_doc ?hc = Some 11" "acroForm_of src_doc ?hb = Some 11"
      "acroForm_of src_doc ?ha = None"
    by (simp_all add: acroForm_of_def merge_eval)
  have direct: "fields_held_directly src_doc ?hc" "fields_held_directly src_doc ?hb"
      "fields_held_directly src_doc ?ha"
    by (simp_all add: fields_held_directly_def src) (simp_all add: merge_eval)
  have fs: "fields_of src_doc ?hc = [IndirectRef 2 0]" "fields_of src_doc ?hb = [IndirectRef 2 0]"
      "fields_of src_doc ?ha = []"
    by (simp_all add: fields_of_def src) (simp_all add: merge_eval)
  have fd: "fields_of dst_doc ?hc = [IndirectRef 3 0]" "fields_of dst_doc ?hb = []"
    by (simp_all add: fields_of_def dst) (simp_all add: merge_eval)
  have e: "fst (mergeAcroForms src_doc dst_doc ?hc) = None"
      "fst (mergeAcroForms src_doc dst_doc ?hb) = None"
      "fst (mergeAcroForms src_doc dst_doc ?ha) = None"
    by (simp_all add: merge_eval)
  have okc: "mergeAcroForms src_doc dst_doc ?hc = (None, snd (mergeAcroForms src_doc dst_doc ?hc))"
    using e(1) by (metis prod.collapse)
  have okb: "mergeAcroForms src_doc dst_doc ?hb = (None, snd (mergeAcroForms src_doc dst_doc ?hb))"
    using e(2) by (metis prod.collapse)
  have oka: "mergeAcroForms src_doc dst_doc ?ha = (None, snd (mergeAcroForms src_doc dst_doc ?ha))"
    using e(3) by (metis prod.collapse)
  from C3_xfa_after_successful_merge[OF okc dst(1) direct(1)] fs(1) fd(1)
  have c: "acroForm_of dst_doc (snd (mergeAcroForms src_doc dst_doc ?hc)) = Some 21"
      "Find (snd (mergeAcroForms src_doc dst_doc ?hc) 21) ''XFA'' = None"
    by simp_all
  have y: "Find (?hb 11) ''XFA'' = Some (StringLiteral ''y'')"
    by (simp add: merge_eval)
  from C3_xfa_after_successful_merge[OF okb dst(2) direct(2)] fs(2) fd(2) src(2) y
  have b: "acroForm_of dst_doc (snd (mergeAcroForms src_doc dst_doc ?hb)) = Some 11"
      "Find (snd (mergeAcroForms src_doc dst_doc ?hb) 11) ''XFA'' = Some (StringLiteral ''y'')"
    by simp_all
  from C3_xfa_after_successful_merge[OF oka dst(3) direct(3)] fs(3)
  have "snd (mergeAcroForms src_doc dst_doc ?ha) = ?ha"
    by simp
  with oka have a: "mergeAcroForms src_doc dst_doc ?ha = (None, ?ha)"
    by simp
  from e(1,2) c b a show ?thesis by blast
qed

text \<open>
  C3 as claimed fails. When the source's catalog has no \<^verbatim>\<open>AcroForm\<close> the merge
  succeeds and the destination's form keeps its \<^verbatim>\<open>XFA\<close> entry. When the destination's
  form has no \<^verbatim>\<open>Fields\<close> the source's form replaces it, \<^verbatim>\<open>XFA\<close> entry of the source
  included.
\<close>

theorem C3_xfa_survives_counterexample:
  "fst (mergeAcroForms src_doc dst_doc
          (forms_heap [] []
             [(''Fields'', Array [IndirectRef 3 0]), (''XFA'', StringLiteral ''x'')])) = None
   \<and> Find (snd (mergeAcroForms src_doc dst_doc
          (forms_heap [] []
             [(''Fields'', Array [IndirectRef 3 0]), (''XFA'', StringLiteral ''x'')])) 21) ''XFA''
       = Some (StringLiteral ''x'')
   \<and> fst (mergeAcroForms src_doc dst_doc
          (forms_heap [(''AcroForm'', Dict 11)]
             [(''Fields'', Array [IndirectRef 2 0]), (''XFA'', StringLiteral ''y'')]
             [(''XFA'', StringLiteral ''x'')])) = None
   \<and> acroForm_of dst_doc (snd (mergeAcroForms src_doc dst_doc
          (forms_heap [(''AcroForm'', Dict 11)]
             [(''Fields'', Array [IndirectRef 2 0]), (''XFA'', StringLiteral ''y'')]
             [(''XFA'', StringLiteral ''x'')]))) = Some 11
   \<and> Find (snd (mergeAcroForms src_doc dst_doc
          (forms_heap [(''AcroForm'', Dict 11)]
             [(''Fields'', Array [IndirectRef 2 0]), (''XFA'', StringLiteral ''y'')]
             [(''XFA'', StringLiteral ''x'')])) 11) ''XFA''
       = Some (StringLiteral ''y'')"
  by (simp add: acroForm_of_def merge_eval)

text \<open>
  C4. Claimed: every reference is resolved against the table of the document it
  comes from, in particular the source form's \<^verbatim>\<open>Fields\<close>. The code resolves that
  entry with \<^verbatim>\<open>ctxDest.DereferenceArray\<close>. Here the source's \<^verbatim>\<open>Fields\<close> is
  \<^verbatim>\<open>5 0 R\<close>, in the source the array of its field \<^verbatim>\<open>2 0 R\<close>, in the destination
  another array: the merge appends the destination's object 5 to the destination's
  fields, and the source's field \<^verbatim>\<open>2 0 R\<close> is not among them.
\<close>

theorem C4_source_fields_resolved_in_destination_table:
  "fields_of src_doc
     (forms_heap [(''AcroForm'', Dict 11)] [(''Fields'', IndirectRef 5 0)]
        [(''Fields'', Array [IndirectRef 3 0])]) = [IndirectRef 2 0]
   \<and> DereferenceArray dst_doc (IndirectRef 5 0) = Inr [IndirectRef 3 0, IndirectRef 4 0]
   \<and> fst (mergeAcroForms src_doc dst_doc
       (forms_heap [(''AcroForm'', Dict 11)] [(''Fields'', IndirectRef 5 0)]
          [(''Fields'', Array [IndirectRef 3 0])])) = None
   \<and> Find (snd (mergeAcroForms src_doc dst_doc
       (forms_heap [(''AcroForm'', Dict 11)] [(''Fields'', IndirectRef 5 0)]
          [(''Fields'', Array [IndirectRef 3 0])])) 21) ''Fields''
       = Some (Array [IndirectRef 3 0, IndirectRef 3 0, IndirectRef 4 0])"
  by (simp add: fields_of_def acroForm_of_def merge_eval)

text \<open>
  C5. Claimed: with N destination fields and M source fields the destination ends
  with the N destination entries followed by the M source entries. Here both forms
  keep their fields in an array that is object \<^verbatim>\<open>5 0 R\<close> of their own document: the
  destination has the two fields \<^verbatim>\<open>3 0 R\<close>, \<^verbatim>\<open>4 0 R\<close>, the source the one field
  \<^verbatim>\<open>2 0 R\<close>. The merged array has four entries, the destination's fields twice, and
  not the source's field.
\<close>

theorem C5_fields_not_destination_then_source:
  "fields_of dst_doc
     (forms_heap [(''AcroForm'', Dict 11)] [(''Fields'', IndirectRef 5 0)]
        [(''Fields'', IndirectRef 5 0)]) = [IndirectRef 3 0, IndirectRef 4 0]
   \<and> fields_of src_doc
     (forms_heap [(''AcroForm'', Dict 11)] [(''Fields'', IndirectRef 5 0)]
        [(''Fields'', IndirectRef 5 0)]) = [IndirectRef 2 0]
   \<and> fst (mergeAcroForms src_doc dst_doc
       (forms_heap [(''AcroForm'', Dict 11)] [(''Fields'', IndirectRef 5 0)]
          [(''Fields'', IndirectRef 5 0)])) = None
   \<and> fields_of dst_doc (snd (mergeAcroForms src_doc dst_doc
       (forms_heap [(''AcroForm'', Dict 11)] [(''Fields'', IndirectRef 5 0)]
          [(''Fields'', IndirectRef 5 0)])))
       = [IndirectRef 3 0, IndirectRef 4 0, IndirectRef 3 0, IndirectRef 4 0]"
  by (simp add: fields_of_def acroForm_of_def merge_eval)

text \<open>
  C6. Claimed: when the destination's \<^verbatim>\<open>DR\<close> is an empty dictionary, the destination
  form's \<^verbatim>\<open>DR\<close> becomes the source's \<^verbatim>\<open>DR\<close>. The code writes the source's dictionary
  under the key \<^verbatim>\<open>DR\<close> of the empty resource dictionary itself. Here the source's
  \<^verbatim>\<open>DR\<close> is the dictionary at 13, the destination's the empty one at 23: after the
  merge the destination form's \<^verbatim>\<open>DR\<close> is still the dictionary at 23, which now
  holds an entry \<^verbatim>\<open>DR\<close> of its own.
\<close>

theorem C6_empty_DR_not_replaced:
  "fst (mergeAcroForms src_doc dst_doc
          (forms_heap [(''AcroForm'', Dict 11)]
             [(''Fields'', Array [IndirectRef 2 0]), (''DR'', Dict 13)]
             [(''Fields'', Array [IndirectRef 3 0]), (''DR'', Dict 23)])) = None
   \<and> forms_heap [(''AcroForm'', Dict 11)]
             [(''Fields'', Array [IndirectRef 2 0]), (''DR'', Dict 13)]
             [(''Fields'', Array [IndirectRef 3 0]), (''DR'', Dict 23)] 23 = []
   \<and> Find (snd (mergeAcroForms src_doc dst_doc
          (forms_heap [(''AcroForm'', Dict 11)]
             [(''Fields'', Array [IndirectRef 2 0]), (''DR'', Dict 13)]
             [(''Fields'', Array [IndirectRef 3 0]), (''DR'', Dict 23)])) 21) ''DR''
       = Some (Dict 23)
   \<and> snd (mergeAcroForms src_doc dst_doc
          (forms_heap [(''AcroForm'', Dict 11)]
             [(''Fields'', Array [IndirectRef 2 0]), (''DR'', Dict 13)]
             [(''Fields'', Array [IndirectRef 3 0]), (''DR'', Dict 23)])) 23
       = [(''DR'', Dict 13)]"
  by (simp add: merge_eval)

text \<open>
  C8. Merging a source whose catalog has no \<^verbatim>\<open>AcroForm\<close> entry returns success and
  leaves the heap, hence every dictionary of the destination, as it was. Both
  catalogs resolve, as they do for parsed and validated documents.
\<close>

theorem C8_merge_without_source_form_is_noop:
  assumes "Catalog ctxDest = Inr rootDictDest"
      and "Catalog ctxSource = Inr rootDictSource"
      and "Find (h rootDictSource) ''AcroForm'' = None"
  shows "mergeAcroForms ctxSource ctxDest h = (None, h)"
  using assms by (simp add: mergeAcroForms_def)

theorem C8_merge_noop_witness:
  "Catalog dst_doc = Inr 20
   \<and> Catalog src_doc = Inr 10
   \<and> Find (forms_heap [(''Pages'', IndirectRef 7 0)] []
        [(''Fields'', Array [IndirectRef 3 0]), (''DA'', StringLiteral ''/Helv 0 Tf 0 g'')] 10)
       ''AcroForm'' = None
   \<and> mergeAcroForms src_doc dst_doc
       (forms_heap [(''Pages'', IndirectRef 7 0)] []
        [(''Fields'', Array [IndirectRef 3 0]), (''DA'', StringLiteral ''/Helv 0 Tf 0 g'')])
     = (None, forms_heap [(''Pages'', IndirectRef 7 0)] []
        [(''Fields'', Array [IndirectRef 3 0]), (''DA'', StringLiteral ''/Helv 0 Tf 0 g'')])"
proof -
  let ?h = "forms_heap [(''Pages'', IndirectRef 7 0)] []
        [(''Fields'', Array [IndirectRef 3 0]), (''DA'', StringLiteral ''/Helv 0 Tf 0 g'')]"
  have 1: "Catalog dst_doc = Inr 20"
    by (simp add: Catalog_def FindTableEntryForIndRef_def dst_doc_def)
  have 2: "Catalog src_doc = Inr 10"
    by (simp add: Catalog_def FindTableEntryForIndRef_def src_doc_def)
  have 3: "Find (?h 10) ''AcroForm'' = None"
    by (simp add: forms_heap_def heap_of_def Find_def)
  from C8_merge_without_source_form_is_noop[of dst_doc 20 src_doc 10 ?h, OF 1 2 3] 1 2 3
  show ?thesis by blast
qed




section \<open>The field scraper: the loop over the fields\<close>

lemma field_name_Update_V:
  "field_name ctx (Update h d ''V'' v) = field_name ctx h"
  by (rule ext) (simp add: field_name_def StringEntry_Update_V split: Object.splits option.splits)

lemma anomalous_Update_V:
  "anomalous ctx (Update h d ''V'' v) ob = anomalous ctx h ob"
  by (simp add: anomalous_def StringEntry_Update_V split: Object.splits option.splits)

text \<open>One round of the loop on a field that has a name, and on one that has none.\<close>

lemma fieldLoop_named:
  assumes "field_name ctx h ob = Some nm"
  obtains n g d where "ob = IndirectRef n g"
    and "FindTableEntryForIndRef ctx (n, g) = Some (Dict d)"
    and "fieldLoop idx ctx i (ob # rest) h w =
           fieldLoop idx ctx (Suc i) rest (Update h d ''V'' (StringLiteral ''STUFF!''))
             (w\<lparr>acro_fields := acro_fields w @ [nm]\<rparr>)"
  using assms by (auto simp: field_name_def split: Object.splits option.splits)

lemma fieldLoop_unnamed:
  assumes "field_name ctx h ob = None"
  shows "fieldLoop idx ctx i (ob # rest) h w = (Some (Inl TypeAssertionPanic), h, w) \<or>
         (\<exists>m. fieldLoop idx ctx i (ob # rest) h w = (Some (Inr 0), h, log_line m w))"
  using assms by (auto simp: field_name_def split: Object.splits option.splits)

lemma fieldLoop_anomalous:
  "anomalous ctx h bad \<Longrightarrow>
   \<exists>m. fieldLoop idx ctx i (bad # post) h w = (Some (Inr 0), h, log_line m w)"
  by (auto simp: anomalous_def split: Object.splits option.splits)

lemma fieldLoop_good_prefix:
  "\<forall>ob\<in>set pre. field_name ctx h ob \<noteq> None \<Longrightarrow>
   \<exists>h'. fieldLoop idx ctx i (pre @ rest) h w =
           fieldLoop idx ctx (i + length pre) rest h'
             (w\<lparr>acro_fields := acro_fields w @ List.map_filter (field_name ctx h) pre\<rparr>)
        \<and> (\<forall>ob. anomalous ctx h' ob = anomalous ctx h ob)"
proof (induction pre arbitrary: h w i)
  case Nil
  show ?case by (rule exI[of _ h]) simp
next
  case (Cons ob pre)
  from Cons.prems obtain nm where nm: "field_name ctx h ob = Some nm" by auto
  then obtain n g d where "ob = IndirectRef n g" and
    step: "fieldLoop idx ctx i (ob # (pre @ rest)) h w =
           fieldLoop idx ctx (Suc i) (pre @ rest) (Update h d ''V'' (StringLiteral ''STUFF!''))
             (w\<lparr>acro_fields := acro_fields w @ [nm]\<rparr>)"
    by (rule fieldLoop_named)
  let ?h1 = "Update h d ''V'' (StringLiteral ''STUFF!'')"
  let ?w1 = "w\<lparr>acro_fields := acro_fields w @ [nm]\<rparr>"
  have good: "\<forall>ob\<in>set pre. field_name ctx ?h1 ob \<noteq> None"
    using Cons.prems by (simp add: field_name_Update_V)
  from Cons.IH[OF good, of "Suc i" ?w1] obtain h' where
    h': "fieldLoop idx ctx (Suc i) (pre @ rest) ?h1 ?w1 =
           fieldLoop idx ctx (Suc i + length pre) rest h'
             (?w1\<lparr>acro_fields := acro_fields ?w1 @ List.map_filter (field_name ctx ?h1) pre\<rparr>)"
      "\<forall>ob. anomalous ctx h' ob = anomalous ctx ?h1 ob"
    by blast
  show ?case
    apply (rule exI[of _ h'])
    using h' step nm
    apply (simp only: append_Cons)
    apply (simp add: field_name_Update_V anomalous_Update_V)
    done
qed

text \<open>The loop never touches the written files and only appends to the names.\<close>

lemma fieldLoop_world:
  "fieldLoop idx ctx i flds h w = (r, h', w') \<Longrightarrow>
   written w' = written w \<and> (\<exists>names. acro_fields w' = acro_fields w @ names)"
proof (induction flds arbitrary: h w i)
  case Nil
  then show ?case by simp
next
  case (Cons ob flds)
  show ?case
  proof (cases "field_name ctx h ob")
    case None
    from fieldLoop_unnamed[OF None, of idx i flds w] Cons.prems show ?thesis
      by (auto simp: log_line_def)
  next
    case (Some nm)
    then obtain n g d where "ob = IndirectRef n g" and
      "fieldLoop idx ctx i (ob # flds) h w =
         fieldLoop idx ctx (Suc i) flds (Update h d ''V'' (StringLiteral ''STUFF!''))
           (w\<lparr>acro_fields := acro_fields w @ [nm]\<rparr>)"
      by (rule fieldLoop_named)
    with Cons.prems have "fieldLoop idx ctx (Suc i) flds (Update h d ''V'' (StringLiteral ''STUFF!''))
        (w\<lparr>acro_fields := acro_fields w @ [nm]\<rparr>) = (r, h', w')" by simp
    from Cons.IH[OF this] show ?thesis by auto
  qed
qed

section \<open>The field scraper: one document\<close>

lemma getAcro_ctx_fields:
  "acroForm_of ctx h = Some a \<Longrightarrow>
   getAcro_ctx idx ctx h w =
     (case fieldLoop idx ctx 0 (ArrayEntry (h a) ''Fields'') h w of
        (Some r, h', w') \<Rightarrow> (r, h', w')
      | (None, h', w') \<Rightarrow>
          (Inr 1, h', w'\<lparr>written := written w' @ [(idx, ''.'', ''tezzting.pdf'')]\<rparr>))"
  by (auto simp: acroForm_of_def getAcro_ctx_def split: sum.splits option.splits)

text \<open>
  \<^verbatim>\<open>getAcro\<close> either returns 0 before the loop, having changed nothing but the log,
  or it is the loop over \<open>scraper_fields\<close>, followed by the write when the loop ends.
\<close>

lemma getAcro_ctx_loop:
  assumes a: "getAcro_ctx idx ctx h w = (r, h', w')"
  shows "(r = Inr 0 \<and> h' = h \<and> written w' = written w \<and> acro_fields w' = acro_fields w) \<or>
   (\<exists>lr w1. fieldLoop idx ctx 0 (scraper_fields ctx h) h w = (lr, h', w1) \<and>
      (case lr of Some x \<Rightarrow> r = x \<and> w' = w1
       | None \<Rightarrow> r = Inr 1 \<and> w' = w1\<lparr>written := written w1 @ [(idx, ''.'', ''tezzting.pdf'')]\<rparr>))"
proof (cases "Catalog ctx")
  case (Inl err)
  with a show ?thesis by (auto simp add: getAcro_ctx_def log_line_def)
next
  case (Inr cat)
  note cat = this
  show ?thesis
  proof (cases "Find (h cat) ''AcroForm''")
    case None
    with a cat show ?thesis by (auto simp add: getAcro_ctx_def log_line_def)
  next
    case (Some acroform)
    note acro = this
    show ?thesis
    proof (cases "DereferenceDict ctx acroform")
      case (Inl err)
      with a cat acro show ?thesis by (auto simp add: getAcro_ctx_def log_line_def)
    next
      case (Inr adict)
      obtain lr h1 w1 where run: "fieldLoop idx ctx 0 (scraper_fields ctx h) h w = (lr, h1, w1)"
        using prod_cases3 by blast
      have sf: "scraper_fields ctx h =
            ArrayEntry (case adict of None \<Rightarrow> [] | Some a \<Rightarrow> h a) ''Fields''"
        by (simp add: scraper_fields_def cat acro Inr)
      from a cat acro Inr run sf have "h' = h1 \<and> (case lr of Some x \<Rightarrow> r = x \<and> w' = w1
          | None \<Rightarrow> r = Inr 1 \<and> w' = w1\<lparr>written := written w1 @ [(idx, ''.'', ''tezzting.pdf'')]\<rparr>)"
        by (auto simp: getAcro_ctx_def split: option.splits)
      with run show ?thesis by blast
    qed
  qed
qed

lemma getAcro_ctx_anomaly:
  assumes "acroForm_of ctx h = Some a"
      and "Find (h a) ''Fields'' = Some (Array (pre @ bad # post))"
      and "\<forall>ob\<in>set pre. field_name ctx h ob \<noteq> None"
      and "anomalous ctx h bad"
  shows "\<exists>h' m. getAcro_ctx idx ctx h w =
           (Inr 0, h', log_line m
              (w\<lparr>acro_fields := acro_fields w @ List.map_filter (field_name ctx h) pre\<rparr>))"
proof -
  have arr: "ArrayEntry (h a) ''Fields'' = pre @ bad # post"
    using assms(2) by (simp add: ArrayEntry_def)
  from fieldLoop_good_prefix[OF assms(3), of idx 0 "bad # post" w] obtain h' where
    h': "fieldLoop idx ctx 0 (pre @ bad # post) h w =
           fieldLoop idx ctx (0 + length pre) (bad # post) h'
             (w\<lparr>acro_fields := acro_fields w @ List.map_filter (field_name ctx h) pre\<rparr>)"
      "\<forall>ob. anomalous ctx h' ob = anomalous ctx h ob"
    by blast
  from h'(2) assms(4) have "anomalous ctx h' bad" by simp
  from fieldLoop_anomalous[OF this] obtain m where
    m: "fieldLoop idx ctx (0 + length pre) (bad # post) h'
          (w\<lparr>acro_fields := acro_fields w @ List.map_filter (field_name ctx h) pre\<rparr>) =
        (Some (Inr 0), h',
         log_line m (w\<lparr>acro_fields := acro_fields w @ List.map_filter (field_name ctx h) pre\<rparr>))"
    by blast
  show ?thesis
    apply (rule exI[of _ h'])
    apply (rule exI[of _ m])
    apply (simp only: getAcro_ctx_fields[OF assms(1)] arr h'(1) m)
    apply simp
    done
qed

text \<open>
  The loop over a prefix of named fields: it collects their names, stamps each of
  them, and what it has stamped stays stamped.
\<close>

lemma fieldLoop_prefix_stamped:
  "\<forall>ob\<in>set pre. field_name ctx h ob \<noteq> None \<Longrightarrow>
   \<exists>h'. fieldLoop idx ctx i (pre @ rest) h w =
           fieldLoop idx ctx (i + length pre) rest h'
             (w\<lparr>acro_fields := acro_fields w @ List.map_filter (field_name ctx h) pre\<rparr>)
        \<and> (\<forall>ob. anomalous ctx h' ob = anomalous ctx h ob)
        \<and> (\<forall>a. Find (h a) ''V'' = Some (StringLiteral ''STUFF!'') \<longrightarrow>
                 Find (h' a) ''V'' = Some (StringLiteral ''STUFF!''))
        \<and> (\<forall>ob\<in>set pre. \<exists>n g d. ob = IndirectRef n g \<and>
               FindTableEntryForIndRef ctx (n, g) = Some (Dict d) \<and>
               Find (h' d) ''V'' = Some (StringLiteral ''STUFF!''))"
proof (induction pre arbitrary: h w i)
  case Nil
  show ?case by (rule exI[of _ h]) simp
next
  case (Cons ob pre)
  from Cons.prems obtain nm where nm: "field_name ctx h ob = Some nm" by auto
  then obtain n g d where ob: "ob = IndirectRef n g"
    "FindTableEntryForIndRef ctx (n, g) = Some (Dict d)" and
    step: "fieldLoop idx ctx i (ob # (pre @ rest)) h w =
           fieldLoop idx ctx (Suc i) (pre @ rest) (Update h d ''V'' (StringLiteral ''STUFF!''))
             (w\<lparr>acro_fields := acro_fields w @ [nm]\<rparr>)"
    by (rule fieldLoop_named)
  let ?h1 = "Update h d ''V'' (StringLiteral ''STUFF!'')"
  let ?w1 = "w\<lparr>acro_fields := acro_fields w @ [nm]\<rparr>"
  have good: "\<forall>ob\<in>set pre. field_name ctx ?h1 ob \<noteq> None"
    using Cons.prems by (simp add: field_name_Update_V)
  from Cons.IH[OF good, of "Suc i" ?w1] obtain h' where
    h': "fieldLoop idx ctx (Suc i) (pre @ rest) ?h1 ?w1 =
           fieldLoop idx ctx (Suc i + length pre) rest h'
             (?w1\<lparr>acro_fields := acro_fields ?w1 @ List.map_filter (field_name ctx ?h1) pre\<rparr>)"
      and an: "\<forall>ob. anomalous ctx h' ob = anomalous ctx ?h1 ob"
      and keep: "\<forall>a. Find (?h1 a) ''V'' = Some (StringLiteral ''STUFF!'') \<longrightarrow>
                 Find (h' a) ''V'' = Some (StringLiteral ''STUFF!'')"
      and st: "\<forall>ob\<in>set pre. \<exists>n g d. ob = IndirectRef n g \<and>
               FindTableEntryForIndRef ctx (n, g) = Some (Dict d) \<and>
               Find (h' d) ''V'' = Some (StringLiteral ''STUFF!'')"
    by blast
  have 1: "fieldLoop idx ctx i ((ob # pre) @ rest) h w =
           fieldLoop idx ctx (i + length (ob # pre)) rest h'
             (w\<lparr>acro_fields := acro_fields w @ List.map_filter (field_name ctx h) (ob # pre)\<rparr>)"
    using h' step nm by (simp add: field_name_Update_V)
  have 2: "\<forall>ob. anomalous ctx h' ob = anomalous ctx h ob"
    using an by (simp add: anomalous_Update_V)
  have 3: "\<forall>a. Find (h a) ''V'' = Some (StringLiteral ''STUFF!'') \<longrightarrow>
                 Find (h' a) ''V'' = Some (StringLiteral ''STUFF!'')"
    using keep by (simp add: Find_Update_V)
  have "Find (h' d) ''V'' = Some (StringLiteral ''STUFF!'')"
    using keep by (simp add: Find_Update_V)
  with ob st have 4: "\<forall>ob\<in>set (ob # pre). \<exists>n g d. ob = IndirectRef n g \<and>
               FindTableEntryForIndRef ctx (n, g) = Some (Dict d) \<and>
               Find (h' d) ''V'' = Some (StringLiteral ''STUFF!'')"
    by simp
  from 1 2 3 4 show ?case by blast
qed

lemma getAcro_ctx_array:
  "scraper_array ctx h = Some flds \<Longrightarrow>
   getAcro_ctx idx ctx h w =
     (case fieldLoop idx ctx 0 flds h w of
        (Some r, h', w') \<Rightarrow> (r, h', w')
      | (None, h', w') \<Rightarrow>
          (Inr 1, h', w'\<lparr>written := written w' @ [(idx, ''.'', ''tezzting.pdf'')]\<rparr>))"
  by (auto simp: scraper_array_def getAcro_ctx_def split: sum.splits option.splits)

text \<open>
  C2, as amended. Claimed: a field without a table entry, with an entry that is not
  a dictionary, or without a name is skipped, and scraping continues with the next
  field of the document. What holds: at the first such field \<^verbatim>\<open>getAcro\<close> logs one
  line and returns 0. The names of the fields before it have been collected, the
  fields after it are not looked at (the result does not depend on them), and
  nothing is written.
\<close>

theorem C2_anomalous_field_ends_the_document:
  assumes "acroForm_of ctx h = Some a"
      and "Find (h a) ''Fields'' = Some (Array (pre @ bad # post))"
      and "\<forall>ob\<in>set pre. field_name ctx h ob \<noteq> None"
      and "anomalous ctx h bad"
  shows "\<exists>h' m. getAcro_ctx idx ctx h w =
           (Inr 0, h', log_line m
              (w\<lparr>acro_fields := acro_fields w @ List.map_filter (field_name ctx h) pre\<rparr>))"
  using assms by (rule getAcro_ctx_anomaly)

text \<open>
  The theorem at a document with the fields a, a dangling reference, b: the scraper
  returns 0 with the name a alone.
\<close>

theorem C2_anomalous_field_witness:
  "acroForm_of scrape_doc (scrape_heap [IndirectRef 2 0, IndirectRef 9 0, IndirectRef 3 0]) = Some 11
   \<and> field_name scrape_doc (scrape_heap [IndirectRef 2 0, IndirectRef 9 0, IndirectRef 3 0])
        (IndirectRef 2 0) = Some ''a''
   \<and> anomalous scrape_doc (scrape_heap [IndirectRef 2 0, IndirectRef 9 0, IndirectRef 3 0])
        (IndirectRef 9 0)
   \<and> fst (getAcro_ctx 0 scrape_doc
        (scrape_heap [IndirectRef 2 0, IndirectRef 9 0, IndirectRef 3 0]) world0) = Inr 0
   \<and> acro_fields (snd (snd (getAcro_ctx 0 scrape_doc
        (scrape_heap [IndirectRef 2 0, IndirectRef 9 0, IndirectRef 3 0]) world0))) = [''a'']
   \<and> written (snd (snd (getAcro_ctx 0 scrape_doc
        (scrape_heap [IndirectRef 2 0, IndirectRef 9 0, IndirectRef 3 0]) world0))) = []"
proof -
  let ?h = "scrape_heap [IndirectRef 2 0, IndirectRef 9 0, IndirectRef 3 0]"
  have 1: "acroForm_of scrape_doc ?h = Some 11"
    by (simp add: acroForm_of_def scrape_eval)
  have 2: "Find (?h 11) ''Fields'' = Some (Array ([IndirectRef 2 0] @ IndirectRef 9 0 # [IndirectRef 3 0]))"
    by (simp add: scrape_eval)
  have nm: "field_name scrape_doc ?h (IndirectRef 2 0) = Some ''a''"
    by (simp add: field_name_def scrape_eval)
  then have 3: "\<forall>ob\<in>set [IndirectRef 2 0]. field_name scrape_doc ?h ob \<noteq> None"
    by simp
  have 4: "anomalous scrape_doc ?h (IndirectRef 9 0)"
    by (simp add: anomalous_def scrape_eval)
  from C2_anomalous_field_ends_the_document[OF 1 2 3 4, of 0 world0] obtain h' m where
    "getAcro_ctx 0 scrape_doc ?h world0 =
       (Inr 0, h', log_line m (world0\<lparr>acro_fields := acro_fields world0 @
          List.map_filter (field_name scrape_doc ?h) [IndirectRef 2 0]\<rparr>))"
    by blast
  then have "fst (getAcro_ctx 0 scrape_doc ?h world0) = Inr 0"
    and "acro_fields (snd (snd (getAcro_ctx 0 scrape_doc ?h world0))) = [''a'']"
    and "written (snd (snd (getAcro_ctx 0 scrape_doc ?h world0))) = []"
    by (simp_all add: nm log_line_def world0_def)
  with 1 nm 4 show ?thesis by blast
qed

text \<open>
  C2 as claimed fails: in a document whose first field is a dangling reference and
  whose second field is named b, the scraper returns 0 without the name b.
\<close>

theorem C2_no_skip_counterexample:
  "anomalous scrape_doc (scrape_heap [IndirectRef 9 0, IndirectRef 3 0]) (IndirectRef 9 0)
   \<and> field_name scrape_doc (scrape_heap [IndirectRef 9 0, IndirectRef 3 0]) (IndirectRef 3 0)
       = Some ''b''
   \<and> fst (getAcro_ctx 0 scrape_doc (scrape_heap [IndirectRef 9 0, IndirectRef 3 0]) world0)
       = Inr 0
   \<and> acro_fields (snd (snd (getAcro_ctx 0 scrape_doc
         (scrape_heap [IndirectRef 9 0, IndirectRef 3 0]) world0))) = []"
  by (simp add: anomalous_def field_name_def scrape_eval)

text \<open>
  C7, as amended. Claimed: setting \<^verbatim>\<open>V\<close> is optional, and the document is written
  only if some field was written, under a name the caller gives. What holds, for
  the array \<open>pre @ rest\<close> that \<^verbatim>\<open>getAcro\<close> iterates over, with every field of \<open>pre\<close>
  named: \<^verbatim>\<open>getAcro\<close> collects the names of \<open>pre\<close> and sets the \<^verbatim>\<open>V\<close> of each of these
  fields to the string \<^verbatim>\<open>STUFF!\<close>, in both of these cases:
  \<^item> \<open>rest\<close> is empty, the loop reaches the end of the array: \<^verbatim>\<open>getAcro\<close> returns 1
    and writes the document once, as \<^verbatim>\<open>tezzting.pdf\<close> in the current directory,
    also when \<open>pre\<close> is empty and no field was written;
  \<^item> \<open>rest\<close> begins with an anomalous field: \<^verbatim>\<open>getAcro\<close> logs one line, returns 0
    and writes nothing, although the fields of \<open>pre\<close> have been written.
  The value and the file name are constants of the code; there is no mode without
  the stamping.
\<close>

theorem C7_stamp_always_write_at_end:
  assumes arr: "scraper_array ctx h = Some (pre @ rest)"
      and good: "\<forall>ob\<in>set pre. field_name ctx h ob \<noteq> None"
      and stop: "case rest of [] \<Rightarrow> True | bad # post \<Rightarrow> anomalous ctx h bad"
  shows "\<exists>h' m.
           getAcro_ctx idx ctx h w =
             (if rest = []
              then (Inr 1, h',
                    w\<lparr>acro_fields := acro_fields w @ List.map_filter (field_name ctx h) pre,
                      written := written w @ [(idx, ''.'', ''tezzting.pdf'')]\<rparr>)
              else (Inr 0, h',
                    log_line m
                      (w\<lparr>acro_fields := acro_fields w @ List.map_filter (field_name ctx h) pre\<rparr>)))
         \<and> (\<forall>ob\<in>set pre. \<exists>n g d. ob = IndirectRef n g \<and>
               FindTableEntryForIndRef ctx (n, g) = Some (Dict d) \<and>
               Find (h' d) ''V'' = Some (StringLiteral ''STUFF!''))"
proof -
  let ?w1 = "w\<lparr>acro_fields := acro_fields w @ List.map_filter (field_name ctx h) pre\<rparr>"
  from fieldLoop_prefix_stamped[OF good, of idx 0 rest w] obtain h' where
    run: "fieldLoop idx ctx 0 (pre @ rest) h w = fieldLoop idx ctx (0 + length pre) rest h' ?w1"
    and an: "\<forall>ob. anomalous ctx h' ob = anomalous ctx h ob"
    and st: "\<forall>ob\<in>set pre. \<exists>n g d. ob = IndirectRef n g \<and>
               FindTableEntryForIndRef ctx (n, g) = Some (Dict d) \<and>
               Find (h' d) ''V'' = Some (StringLiteral ''STUFF!'')"
    by blast
  show ?thesis
  proof (cases rest)
    case Nil
    with run have "fieldLoop idx ctx 0 (pre @ rest) h w = (None, h', ?w1)" by simp
    then have "getAcro_ctx idx ctx h w =
        (Inr 1, h', ?w1\<lparr>written := written ?w1 @ [(idx, ''.'', ''tezzting.pdf'')]\<rparr>)"
      by (simp add: getAcro_ctx_array[OF arr])
    with Nil st show ?thesis by auto
  next
    case (Cons bad post)
    with stop an have "anomalous ctx h' bad" by simp
    from fieldLoop_anomalous[OF this, of idx "0 + length pre" post ?w1] obtain m where
      "fieldLoop idx ctx (0 + length pre) (bad # post) h' ?w1 = (Some (Inr 0), h', log_line m ?w1)"
      by blast
    with run Cons have "fieldLoop idx ctx 0 (pre @ rest) h w = (Some (Inr 0), h', log_line m ?w1)"
      by simp
    then have "getAcro_ctx idx ctx h w = (Inr 0, h', log_line m ?w1)"
      by (simp add: getAcro_ctx_array[OF arr])
    with Cons st show ?thesis by auto
  qed
qed

text \<open>
  The theorem at two documents. With the fields a and b the scraper returns 1, has
  both names, has written the document, and both fields carry the value. With the
  field a before a dangling reference it returns 0 with the name a, has written
  nothing, and the field a carries the value.
\<close>

theorem C7_stamp_always_write_at_end_witness:
  "fst (getAcro_ctx 0 scrape_doc (scrape_heap [IndirectRef 2 0, IndirectRef 3 0]) world0) = Inr 1
   \<and> acro_fields (snd (snd (getAcro_ctx 0 scrape_doc
        (scrape_heap [IndirectRef 2 0, IndirectRef 3 0]) world0))) = [''a'', ''b'']
   \<and> written (snd (snd (getAcro_ctx 0 scrape_doc
        (scrape_heap [IndirectRef 2 0, IndirectRef 3 0]) world0)))
       = [(0, ''.'', ''tezzting.pdf'')]
   \<and> Find (fst (snd (getAcro_ctx 0 scrape_doc
        (scrape_heap [IndirectRef 2 0, IndirectRef 3 0]) world0)) 12) ''V''
       = Some (StringLiteral ''STUFF!'')
   \<and> Find (fst (snd (getAcro_ctx 0 scrape_doc
        (scrape_heap [IndirectRef 2 0, IndirectRef 3 0]) world0)) 13) ''V''
       = Some (StringLiteral ''STUFF!'')
   \<and> fst (getAcro_ctx 0 scrape_doc (scrape_heap [IndirectRef 2 0, IndirectRef 9 0]) world0)
       = Inr 0
   \<and> acro_fields (snd (snd (getAcro_ctx 0 scrape_doc
        (scrape_heap [IndirectRef 2 0, IndirectRef 9 0]) world0))) = [''a'']
   \<and> written (snd (snd (getAcro_ctx 0 scrape_doc
        (scrape_heap [IndirectRef 2 0, IndirectRef 9 0]) world0))) = []
   \<and> Find (fst (snd (getAcro_ctx 0 scrape_doc
        (scrape_heap [IndirectRef 2 0, IndirectRef 9 0]) world0)) 12) ''V''
       = Some (StringLiteral ''STUFF!'')"
proof -
  let ?h1 = "scrape_heap [IndirectRef 2 0, IndirectRef 3 0]"
  let ?h2 = "scrape_heap [IndirectRef 2 0, IndirectRef 9 0]"
  let ?r1 = "getAcro_ctx 0 scrape_doc ?h1 world0"
  let ?r2 = "getAcro_ctx 0 scrape_doc ?h2 world0"
  have t: "FindTableEntryForIndRef scrape_doc (2, 0) = Some (Dict 12)"
    "FindTableEntryForIndRef scrape_doc (3, 0) = Some (Dict 13)"
    by (simp_all add: FindTableEntryForIndRef_def scrape_doc_def)
  have a1: "scraper_array scrape_doc ?h1 = Some ([IndirectRef 2 0, IndirectRef 3 0] @ [])"
    by (simp add: scraper_array_def scrape_eval)
  have n1: "field_name scrape_doc ?h1 (IndirectRef 2 0) = Some ''a''"
      "field_name scrape_doc ?h1 (IndirectRef 3 0) = Some ''b''"
    by (simp_all add: field_name_def scrape_eval)
  then have g1: "\<forall>ob\<in>set [IndirectRef 2 0, IndirectRef 3 0]. field_name scrape_doc ?h1 ob \<noteq> None"
    by simp
  have s1: "case [] :: Object list of [] \<Rightarrow> True | bad # post \<Rightarrow> anomalous scrape_doc ?h1 bad"
    by simp
  from C7_stamp_always_write_at_end[OF a1 g1 s1, of 0 world0] obtain h1 where
    r1: "?r1 = (Inr 1, h1,
           world0\<lparr>acro_fields := acro_fields world0 @
                List.map_filter (field_name scrape_doc ?h1) [IndirectRef 2 0, IndirectRef 3 0],
              written := written world0 @ [(0, ''.'', ''tezzting.pdf'')]\<rparr>)"
    and v1: "\<forall>ob\<in>set [IndirectRef 2 0, IndirectRef 3 0]. \<exists>n g d. ob = IndirectRef n g \<and>
               FindTableEntryForIndRef scrape_doc (n, g) = Some (Dict d) \<and>
               Find (h1 d) ''V'' = Some (StringLiteral ''STUFF!'')"
    by auto
  from v1 t have v1': "Find (h1 12) ''V'' = Some (StringLiteral ''STUFF!'')"
      "Find (h1 13) ''V'' = Some (StringLiteral ''STUFF!'')"
    by auto
  have c1: "fst ?r1 = Inr 1" "acro_fields (snd (snd ?r1)) = [''a'', ''b'']"
      "written (snd (snd ?r1)) = [(0, ''.'', ''tezzting.pdf'')]"
      "Find (fst (snd ?r1) 12) ''V'' = Some (StringLiteral ''STUFF!'')"
      "Find (fst (snd ?r1) 13) ''V'' = Some (StringLiteral ''STUFF!'')"
    using v1' unfolding r1 by (simp_all add: n1 world0_def)
  have a2: "scraper_array scrape_doc ?h2 = Some ([IndirectRef 2 0] @ [IndirectRef 9 0])"
    by (simp add: scraper_array_def scrape_eval)
  have n2: "field_name scrape_doc ?h2 (IndirectRef 2 0) = Some ''a''"
    by (simp add: field_name_def scrape_eval)
  then have g2: "\<forall>ob\<in>set [IndirectRef 2 0]. field_name scrape_doc ?h2 ob \<noteq> None"
    by simp
  have s2: "case [IndirectRef 9 0] of [] \<Rightarrow> True | bad # post \<Rightarrow> anomalous scrape_doc ?h2 bad"
    by (simp add: anomalous_def scrape_eval)
  from C7_stamp_always_write_at_end[OF a2 g2 s2, of 0 world0] obtain h2 m where
    r2: "?r2 = (Inr 0, h2,
           log_line m (world0\<lparr>acro_fields := acro_fields world0 @
                List.map_filter (field_name scrape_doc ?h2) [IndirectRef 2 0]\<rparr>))"
    and v2: "\<forall>ob\<in>set [IndirectRef 2 0]. \<exists>n g d. ob = IndirectRef n g \<and>
               FindTableEntryForIndRef scrape_doc (n, g) = Some (Dict d) \<and>
               Find (h2 d) ''V'' = Some (StringLiteral ''STUFF!'')"
    by auto
  from v2 t have v2': "Find (h2 12) ''V'' = Some (StringLiteral ''STUFF!'')"
    by auto
  have c2: "fst ?r2 = Inr 0" "acro_fields (snd (snd ?r2)) = [''a'']"
      "written (snd (snd ?r2)) = []"
      "Find (fst (snd ?r2) 12) ''V'' = Some (StringLiteral ''STUFF!'')"
    using v2' unfolding r2 by (simp_all add: n2 world0_def log_line_def)
  from c1 c2 show ?thesis by blast
qed

text \<open>
  C7 as claimed fails: a document whose form has an empty \<^verbatim>\<open>Fields\<close> array is
  written, under the fixed name, although no field was written; and in a document
  that is not written (the scraper returns 0 at the dangling second field) the first
  field has been given the fixed value all the same.
\<close>

theorem C7_write_without_field_counterexample:
  "scraper_fields scrape_doc (scrape_heap []) = []
   \<and> fst (getAcro_ctx 0 scrape_doc (scrape_heap []) world0) = Inr 1
   \<and> written (snd (snd (getAcro_ctx 0 scrape_doc (scrape_heap []) world0)))
       = [(0, ''.'', ''tezzting.pdf'')]
   \<and> fst (getAcro_ctx 0 scrape_doc (scrape_heap [IndirectRef 2 0, IndirectRef 9 0]) world0)
       = Inr 0
   \<and> written (snd (snd (getAcro_ctx 0 scrape_doc
        (scrape_heap [IndirectRef 2 0, IndirectRef 9 0]) world0))) = []
   \<and> Find (fst (snd (getAcro_ctx 0 scrape_doc
        (scrape_heap [IndirectRef 2 0, IndirectRef 9 0]) world0)) 12) ''V''
       = Some (StringLiteral ''STUFF!'')"
  by (simp add: scraper_fields_def scrape_eval)

section \<open>The field scraper: a request\<close>

lemma getAcro_world:
  assumes "getAcro idx src w = (r, w')"
  shows "(\<exists>names. acro_fields w' = acro_fields w @ names) \<and>
         set (written w') \<subseteq> set (written w) \<union> {(idx, ''.'', ''tezzting.pdf'')}"
proof (cases src)
  case ReadError
  with assms show ?thesis by (auto simp: getAcro_def log_line_def)
next
  case (Parsed ctx h)
  with assms obtain h' where g: "getAcro_ctx idx ctx h w = (r, h', w')"
    by (auto simp: getAcro_def split: prod.splits)
  from getAcro_ctx_loop[OF g] show ?thesis
  proof
    assume "r = Inr 0 \<and> h' = h \<and> written w' = written w \<and> acro_fields w' = acro_fields w"
    then show ?thesis by auto
  next
    assume "\<exists>lr w1. fieldLoop idx ctx 0 (scraper_fields ctx h) h w = (lr, h', w1) \<and>
      (case lr of Some x \<Rightarrow> r = x \<and> w' = w1
       | None \<Rightarrow> r = Inr 1 \<and> w' = w1\<lparr>written := written w1 @ [(idx, ''.'', ''tezzting.pdf'')]\<rparr>)"
    then obtain lr w1 where run: "fieldLoop idx ctx 0 (scraper_fields ctx h) h w = (lr, h', w1)"
      and lr: "case lr of Some x \<Rightarrow> r = x \<and> w' = w1
       | None \<Rightarrow> r = Inr 1 \<and> w' = w1\<lparr>written := written w1 @ [(idx, ''.'', ''tezzting.pdf'')]\<rparr>"
      by blast
    from fieldLoop_world[OF run] lr show ?thesis by (cases lr) auto
  qed
qed

text \<open>
  The loop over the files only appends to the names, and what it writes carries the
  index of one of its files.
\<close>

lemma scrape_loop_world:
  "scrape_loop fs idx files w = (e, w') \<Longrightarrow>
   (\<exists>names. acro_fields w' = acro_fields w @ names) \<and>
   (\<forall>x\<in>set (written w'). x \<in> set (written w) \<or> (idx \<le> fst x \<and> fst x < idx + length files))"
proof (induction files arbitrary: idx w)
  case Nil
  then show ?case by simp
next
  case (Cons f files)
  have skip: ?case if run: "scrape_loop fs (Suc idx) files w1 = (e, w')"
    and names: "\<exists>names. acro_fields w1 = acro_fields w @ names"
    and wr: "set (written w1) \<subseteq> set (written w) \<union> {(idx, ''.'', ''tezzting.pdf'')}" for w1
  proof -
    from Cons.IH[OF run] obtain ns where
      ns: "acro_fields w' = acro_fields w1 @ ns"
      and w': "\<forall>x\<in>set (written w'). x \<in> set (written w1) \<or>
                 (Suc idx \<le> fst x \<and> fst x < Suc idx + length files)"
      by blast
    from names ns have "\<exists>names. acro_fields w' = acro_fields w @ names" by auto
    moreover have "\<forall>x\<in>set (written w').
        x \<in> set (written w) \<or> (idx \<le> fst x \<and> fst x < idx + length (f # files))"
    proof
      fix x assume "x \<in> set (written w')"
      with w' have "x \<in> set (written w1) \<or> (Suc idx \<le> fst x \<and> fst x < Suc idx + length files)"
        by blast
      then show "x \<in> set (written w) \<or> (idx \<le> fst x \<and> fst x < idx + length (f # files))"
      proof
        assume "x \<in> set (written w1)"
        with wr have "x \<in> set (written w) \<or> x = (idx, ''.'', ''tezzting.pdf'')" by blast
        then show ?thesis by auto
      next
        assume "Suc idx \<le> fst x \<and> fst x < Suc idx + length files"
        then show ?thesis by simp
      qed
    qed
    ultimately show ?thesis by blast
  qed
  show ?case
  proof (cases "fs idx f")
    case OpenError
    with Cons.prems have "scrape_loop fs (Suc idx) files (errorHandler idx w) = (e, w')" by simp
    then show ?thesis by (rule skip) (auto simp: errorHandler_def log_line_def)
  next
    case ValidateError
    with Cons.prems have "scrape_loop fs (Suc idx) files (errorHandler idx w) = (e, w')" by simp
    then show ?thesis by (rule skip) (auto simp: errorHandler_def log_line_def)
  next
    case (Validated src)
    obtain r w1 where g: "getAcro idx src w = (r, w1)" by fastforce
    note gw = getAcro_world[OF g]
    show ?thesis
    proof (cases r)
      case (Inl err)
      with Cons.prems Validated g have w': "w' = w1" by simp
      have "\<forall>x\<in>set (written w1).
          x \<in> set (written w) \<or> (idx \<le> fst x \<and> fst x < idx + length (f # files))"
      proof
        fix x assume "x \<in> set (written w1)"
        with gw have "x \<in> set (written w) \<or> x = (idx, ''.'', ''tezzting.pdf'')" by blast
        then show "x \<in> set (written w) \<or> (idx \<le> fst x \<and> fst x < idx + length (f # files))"
          by auto
      qed
      with gw w' show ?thesis by blast
    next
      case (Inr res)
      with Cons.prems Validated g have "scrape_loop fs (Suc idx) files w1 = (e, w')" by simp
      from skip[OF this conjunct1[OF gw] conjunct2[OF gw]] show ?thesis .
    qed
  qed
qed

lemma scrape_loop_append:
  "scrape_loop fs idx (xs @ ys) w =
     (case scrape_loop fs idx xs w of
        (Some err, w') \<Rightarrow> (Some err, w')
      | (None, w') \<Rightarrow> scrape_loop fs (idx + length xs) ys w')"
proof (induction xs arbitrary: idx w)
  case Nil
  then show ?case by simp
next
  case (Cons f xs)
  show ?case
  proof (cases "fs idx f")
    case OpenError
    then show ?thesis by (simp add: Cons.IH split: prod.splits option.splits)
  next
    case ValidateError
    then show ?thesis by (simp add: Cons.IH split: prod.splits option.splits)
  next
    case (Validated src)
    obtain r w1 where g: "getAcro idx src w = (r, w1)" by fastforce
    show ?thesis
    proof (cases r)
      case (Inl err)
      with Validated g show ?thesis by simp
    next
      case (Inr res)
      with Validated g show ?thesis by (simp add: Cons.IH split: prod.splits option.splits)
    qed
  qed
qed

lemma files_list_of_strings: "files_list_of (map JString xs) = Some xs"
  by (induction xs) simp_all

text \<open>
  C10. The request names the files \<open>before @ f # after\<close>; the file \<open>f\<close> is a
  document whose \<^verbatim>\<open>Fields\<close> array has an anomalous field \<open>bad\<close> after the named
  fields \<open>pre\<close>. When \<^verbatim>\<open>scrape\<close> returns, the names of the fields \<open>pre\<close> are in the
  returned list, in order, between the names of the files before and after, and no
  write carries the index of that document.
\<close>

theorem C10_aborted_document_keeps_prefix_names:
  assumes files: "map_of file_dict ''files'' = Some (JArray (map JString (before @ f # after)))"
      and f: "fs (length before) f = Validated (Parsed ctx h)"
      and a: "acroForm_of ctx h = Some a"
      and flds: "Find (h a) ''Fields'' = Some (Array (pre @ bad # post))"
      and good: "\<forall>ob\<in>set pre. field_name ctx h ob \<noteq> None"
      and bad: "anomalous ctx h bad"
      and ret: "scrape fs file_dict = (None, w)"
  shows "(\<exists>xs ys. acro_fields w = xs @ List.map_filter (field_name ctx h) pre @ ys) \<and>
         length (List.map_filter (field_name ctx h) pre) = length pre \<and>
         (\<forall>x\<in>set (written w). fst x \<noteq> length before)"
proof -
  let ?w0 = "\<lparr>acro_fields = [], logged = [], written = []\<rparr>"
  let ?names = "List.map_filter (field_name ctx h) pre"
  from ret have loop: "scrape_loop fs 0 (before @ f # after) ?w0 = (None, w)"
    unfolding scrape_def files by (simp add: files_list_of_strings del: map_append)
  obtain e1 w1 where l1: "scrape_loop fs 0 before ?w0 = (e1, w1)" by fastforce
  with loop have l2: "scrape_loop fs (length before) (f # after) w1 = (None, w)"
    by (auto simp: scrape_loop_append split: option.splits)
  from getAcro_ctx_anomaly[OF a flds good bad, of "length before" w1] obtain h' m where
    g: "getAcro_ctx (length before) ctx h w1 =
          (Inr 0, h', log_line m (w1\<lparr>acro_fields := acro_fields w1 @ ?names\<rparr>))"
    by blast
  let ?w2 = "log_line m (w1\<lparr>acro_fields := acro_fields w1 @ ?names\<rparr>)"
  from l2 f g have l3: "scrape_loop fs (Suc (length before)) after ?w2 = (None, w)"
    by (simp add: getAcro_def)
  from scrape_loop_world[OF l1] have w1: "\<forall>x\<in>set (written w1). fst x < length before"
    by simp
  from scrape_loop_world[OF l3] obtain ys where
    ys: "acro_fields w = acro_fields ?w2 @ ys"
    and wr: "\<forall>x\<in>set (written w). x \<in> set (written ?w2) \<or> Suc (length before) \<le> fst x"
    by auto
  have "acro_fields w = acro_fields w1 @ ?names @ ys"
    using ys by (simp add: log_line_def)
  moreover have "\<forall>x\<in>set (written w). fst x \<noteq> length before"
  proof
    fix x assume "x \<in> set (written w)"
    with wr have "x \<in> set (written w1) \<or> Suc (length before) \<le> fst x"
      by (auto simp: log_line_def)
    with w1 show "fst x \<noteq> length before" by auto
  qed
  moreover have "length ?names = length pre"
    using good by (induction pre) auto
  ultimately show ?thesis by blast
qed

text \<open>
  The theorem at a request of three files: the first is written and gives the name
  b, the second has the field a before a dangling reference, the third cannot be
  opened. The result is b, a, and the only write is that of the first document.
\<close>

theorem C10_aborted_document_witness:
  "demo_fs 1 ''b.pdf'' = Validated (Parsed scrape_doc
       (scrape_heap [IndirectRef 2 0, IndirectRef 9 0, IndirectRef 3 0]))
   \<and> field_name scrape_doc (scrape_heap [IndirectRef 2 0, IndirectRef 9 0, IndirectRef 3 0])
        (IndirectRef 2 0) = Some ''a''
   \<and> anomalous scrape_doc (scrape_heap [IndirectRef 2 0, IndirectRef 9 0, IndirectRef 3 0])
        (IndirectRef 9 0)
   \<and> fst (scrape demo_fs demo_request) = None
   \<and> acro_fields (snd (scrape demo_fs demo_request)) = [''b'', ''a'']
   \<and> written (snd (scrape demo_fs demo_request)) = [(0, ''.'', ''tezzting.pdf'')]
   \<and> (\<exists>xs ys. acro_fields (snd (scrape demo_fs demo_request)) = xs @ [''a''] @ ys)
   \<and> 1 \<notin> fst ` set (written (snd (scrape demo_fs demo_request)))"
proof -
  let ?h = "scrape_heap [IndirectRef 2 0, IndirectRef 9 0, IndirectRef 3 0]"
  let ?res = "scrape demo_fs demo_request"
  have files: "map_of demo_request ''files'' =
      Some (JArray (map JString ([''a.pdf''] @ ''b.pdf'' # [''c.pdf''])))"
    by (simp add: demo_request_def)
  have f: "demo_fs (length [''a.pdf'']) ''b.pdf'' = Validated (Parsed scrape_doc ?h)"
    by (simp add: demo_fs_def)
  have 1: "acroForm_of scrape_doc ?h = Some 11"
    by (simp add: acroForm_of_def scrape_eval)
  have 2: "Find (?h 11) ''Fields'' = Some (Array ([IndirectRef 2 0] @ IndirectRef 9 0 # [IndirectRef 3 0]))"
    by (simp add: scrape_eval)
  have nm: "field_name scrape_doc ?h (IndirectRef 2 0) = Some ''a''"
    by (simp add: field_name_def scrape_eval)
  then have 3: "\<forall>ob\<in>set [IndirectRef 2 0]. field_name scrape_doc ?h ob \<noteq> None"
    by simp
  have 4: "anomalous scrape_doc ?h (IndirectRef 9 0)"
    by (simp add: anomalous_def scrape_eval)
  have e: "fst ?res = None" and names: "acro_fields (snd ?res) = [''b'', ''a'']"
    and wr: "written (snd ?res) = [(0, ''.'', ''tezzting.pdf'')]"
    by (simp_all add: scrape_def demo_request_def demo_fs_def getAcro_def scrape_eval errorHandler_def)
  from e have ret: "?res = (None, snd ?res)" by (metis prod.collapse)
  from C10_aborted_document_keeps_prefix_names[OF files f 1 2 3 4 ret]
  have "(\<exists>xs ys. acro_fields (snd ?res) = xs @ [''a''] @ ys)"
    and "\<forall>x\<in>set (written (snd ?res)). fst x \<noteq> 1"
    by (simp_all add: nm)
  then have "(\<exists>xs ys. acro_fields (snd ?res) = xs @ [''a''] @ ys)"
    and "1 \<notin> fst ` set (written (snd ?res))"
    by auto
  with f nm 4 e names wr show ?thesis by simp
qed

end
